theory Spec2Isabelle
  imports Main "HOL-Library.Word"
begin

section \<open>Data model of encrypt-driver.c\<close>

text \<open>
  The driver runs five stage threads over two circular buffers of \<open>char\<close>, synchronised
  by counting semaphores and one mutex. A \<open>char\<close> is an 8-bit word, read as a signed
  value when it is compared with \<open>EOF\<close> (the integer promotion of a signed
  \<open>char\<close>; were \<open>char\<close> unsigned, the test \<open>c != EOF\<close> would hold for every
  \<open>c\<close> and no loop of the driver would ever be left).
\<close>

type_synonym cchar = "8 word"

definition EOF :: int where
  "EOF = - 1"

text \<open>The test \<open>c != EOF\<close> on a \<open>char c\<close>.\<close>

definition not_EOF :: "cchar \<Rightarrow> bool" where
  "not_EOF c \<longleftrightarrow> sint c \<noteq> EOF"

text \<open>The semaphores declared at lines 33 to 37.\<close>

datatype sem =
    reader_data_ready | counter_data_ready | encryptor_data_ready
  | output_counter_data_ready | writer_data_ready
  | counter_done | encryptor_done | output_counter_done | writer_done
  | counter_reset_ready | encryptor_reset_ready
  | output_counter_reset_ready | writer_reset_ready

text \<open>
  The five stage threads, and the thread of the encrypt module that calls
  \<open>reset_requested\<close> and \<open>reset_finished\<close>.
\<close>

datatype thread = Reader | InputCounter | Encryptor | OutputCounter | Writer | ResetController

text \<open>
  Program counters: one constructor per statement, named after the line of
  encrypt-driver.c that the thread executes next. The last constructor of each stage
  is its \<open>return NULL\<close>.
\<close>

datatype reader_pc = R54 | R55 | R58 | R59 | R62 | R63 | R66 | R67 | R69 | R70 | R73 | R74 | R75

datatype counter_pc = I82 | I83 | I84 | I85 | I87 | I88 | I90 | I91

datatype encryptor_pc =
    E98 | E99 | E100 | E101 | E103 | E104 | E105 | E108 | E109 | E111
  | E114 | E115 | E116 | E118 | E121 | E122 | E123 | E124 | E125

datatype output_counter_pc = O132 | O133 | O134 | O135 | O137 | O138 | O139 | O140

datatype writer_pc = W147 | W148 | W149 | W151 | W152 | W154 | W155 | W156 | W157

datatype reset_pc =
    C162 | C163 | C164 | C165 | C166 | C169 | C170 | C171 | C172 | C173 | C174 | C176 | C181

record state =
  n :: nat
  m :: nat
  input_buffer :: "cchar list"
  output_buffer :: "cchar list"
  input_buffer_in :: nat
  input_buffer_out :: nat
  output_buffer_in :: nat
  output_buffer_out :: nat
  input_count :: int
  output_count :: int
  sems :: "sem \<Rightarrow> nat"
  reader_lock :: bool
  r_pc :: reader_pc
  r_c :: cchar
  i_pc :: counter_pc
  i_c :: cchar
  e_pc :: encryptor_pc
  e_c :: cchar
  o_pc :: output_counter_pc
  o_c :: cchar
  w_pc :: writer_pc
  w_c :: cchar
  c_pc :: reset_pc
  source :: "cchar list"
  counted_in :: "cchar list"
  counted_out :: "cchar list"
  sink :: "cchar list"
  log :: "(cchar list \<times> cchar list) list"


section \<open>Collaborators of the encrypt module and the primitives\<close>

text \<open>
  Modelled from the spec: \<open>read_input\<close> of encrypt-module.c, which is not part of the
  sources at hand; section 6 gives it as \<open>fetch_next_input_byte() -> Byte | EndOfStream\<close>.
  It returns an \<open>int\<close>: the next byte of the source as a value from 0 to 255, or
  \<open>EOF\<close> once the source is used up.
\<close>

definition read_input :: "cchar list \<Rightarrow> int \<times> cchar list" where
  "read_input src = (case src of [] \<Rightarrow> (EOF, []) | b # bs \<Rightarrow> (uint b, bs))"

text \<open>
  Modelled from the spec: \<open>count_input\<close>, \<open>count_output\<close>, \<open>write_output\<close> and
  \<open>log_counts\<close> of encrypt-module.c (\<open>record_input_observed\<close>,
  \<open>record_output_observed\<close>, \<open>emit_output_byte\<close> and
  \<open>flush_counts_and_reset_log\<close> in section 6). Each one is recorded by what it is
  handed: the bytes counted, the bytes written to the sink, and for every log flush
  the bytes that had been counted when it ran.
\<close>

definition count_input :: "cchar \<Rightarrow> state \<Rightarrow> state" where
  "count_input c s = s\<lparr>counted_in := counted_in s @ [c]\<rparr>"

definition count_output :: "cchar \<Rightarrow> state \<Rightarrow> state" where
  "count_output c s = s\<lparr>counted_out := counted_out s @ [c]\<rparr>"

definition write_output :: "cchar \<Rightarrow> state \<Rightarrow> state" where
  "write_output c s = s\<lparr>sink := sink s @ [c]\<rparr>"

definition log_counts :: "state \<Rightarrow> state" where
  "log_counts s = s\<lparr>log := log s @ [(counted_in s, counted_out s)]\<rparr>"

text \<open>
  A thread that cannot take its step (a wait on a semaphore at zero, a lock that is
  held, a thread that has returned) has no successor state: \<open>None\<close>.
\<close>

definition sem_wait :: "sem \<Rightarrow> state \<Rightarrow> state option" where
  "sem_wait x s = (if sems s x = 0 then None else Some (s\<lparr>sems := (sems s)(x := sems s x - 1)\<rparr>))"

definition sem_post :: "sem \<Rightarrow> state \<Rightarrow> state" where
  "sem_post x s = s\<lparr>sems := (sems s)(x := sems s x + 1)\<rparr>"

definition pthread_mutex_lock :: "state \<Rightarrow> state option" where
  "pthread_mutex_lock s = (if reader_lock s then None else Some (s\<lparr>reader_lock := True\<rparr>))"

definition pthread_mutex_unlock :: "state \<Rightarrow> state" where
  "pthread_mutex_unlock s = s\<lparr>reader_lock := False\<rparr>"

section \<open>The stage threads, one statement per step\<close>

text \<open>Lines 51 to 76.\<close>

definition readerThread :: "state \<Rightarrow> state option" where
  "readerThread s = (case r_pc s of
      R54 \<Rightarrow> map_option (\<lambda>t. t\<lparr>r_pc := R55\<rparr>) (pthread_mutex_lock s)
    | R55 \<Rightarrow> (case read_input (source s) of
               (v, src) \<Rightarrow> Some (s\<lparr>r_c := word_of_int v, source := src, r_pc := R58\<rparr>))
    | R58 \<Rightarrow> Some (s\<lparr>input_buffer := (input_buffer s)[input_buffer_in s := r_c s], r_pc := R59\<rparr>)
    | R59 \<Rightarrow> Some (s\<lparr>input_buffer_in := (input_buffer_in s + 1) mod n s, r_pc := R62\<rparr>)
    | R62 \<Rightarrow> Some ((sem_post counter_data_ready s)\<lparr>r_pc := R63\<rparr>)
    | R63 \<Rightarrow> Some ((sem_post encryptor_data_ready s)\<lparr>r_pc := R66\<rparr>)
    | R66 \<Rightarrow> map_option (\<lambda>t. t\<lparr>r_pc := R67\<rparr>) (sem_wait counter_done s)
    | R67 \<Rightarrow> map_option (\<lambda>t. t\<lparr>r_pc := R69\<rparr>) (sem_wait encryptor_done s)
    | R69 \<Rightarrow> Some ((pthread_mutex_unlock s)\<lparr>r_pc := R70\<rparr>)
    | R70 \<Rightarrow> Some (s\<lparr>r_pc := (if not_EOF (r_c s) then R54 else R73)\<rparr>)
    | R73 \<Rightarrow> Some ((sem_post counter_data_ready s)\<lparr>r_pc := R74\<rparr>)
    | R74 \<Rightarrow> Some ((sem_post encryptor_data_ready s)\<lparr>r_pc := R75\<rparr>)
    | R75 \<Rightarrow> None)"

text \<open>Lines 79 to 92.\<close>

definition inputCounterThread :: "state \<Rightarrow> state option" where
  "inputCounterThread s = (case i_pc s of
      I82 \<Rightarrow> map_option (\<lambda>t. t\<lparr>i_pc := I83\<rparr>) (sem_wait counter_data_ready s)
    | I83 \<Rightarrow> Some (s\<lparr>i_c := input_buffer s ! input_buffer_out s, i_pc := I84\<rparr>)
    | I84 \<Rightarrow> Some ((sem_post counter_done s)\<lparr>i_pc := I85\<rparr>)
    | I85 \<Rightarrow> Some ((sem_post counter_reset_ready s)\<lparr>i_pc := I87\<rparr>)
    | I87 \<Rightarrow> Some (s\<lparr>i_pc := (if not_EOF (i_c s) then I88 else I90)\<rparr>)
    | I88 \<Rightarrow> Some ((count_input (i_c s) s)\<lparr>i_pc := I90\<rparr>)
    | I90 \<Rightarrow> Some (s\<lparr>i_pc := (if not_EOF (i_c s) then I82 else I91)\<rparr>)
    | I91 \<Rightarrow> None)"

text \<open>
  Lines 95 to 126. The transform \<open>encrypt\<close> belongs to the encrypt module, which
  is not part of the sources at hand: it is the parameter \<open>enc\<close>. Line 121 stores
  \<open>EOF\<close> into a \<open>char\<close>.
\<close>

definition encryptorThread :: "(cchar \<Rightarrow> cchar) \<Rightarrow> state \<Rightarrow> state option" where
  "encryptorThread enc s = (case e_pc s of
      E98 \<Rightarrow> map_option (\<lambda>t. t\<lparr>e_pc := E99\<rparr>) (sem_wait encryptor_data_ready s)
    | E99 \<Rightarrow> Some (s\<lparr>e_c := input_buffer s ! input_buffer_out s, e_pc := E100\<rparr>)
    | E100 \<Rightarrow> Some (s\<lparr>input_buffer_out := (input_buffer_out s + 1) mod n s, e_pc := E101\<rparr>)
    | E101 \<Rightarrow> Some ((sem_post encryptor_done s)\<lparr>e_pc := E103\<rparr>)
    | E103 \<Rightarrow> Some (s\<lparr>e_pc := (if not_EOF (e_c s) then E104 else E111)\<rparr>)
    | E104 \<Rightarrow> Some (s\<lparr>output_buffer := (output_buffer s)[output_buffer_in s := enc (e_c s)],
                       e_pc := E105\<rparr>)
    | E105 \<Rightarrow> Some (s\<lparr>output_buffer_in := (output_buffer_in s + 1) mod m s, e_pc := E108\<rparr>)
    | E108 \<Rightarrow> Some ((sem_post output_counter_data_ready s)\<lparr>e_pc := E109\<rparr>)
    | E109 \<Rightarrow> Some ((sem_post writer_data_ready s)\<lparr>e_pc := E111\<rparr>)
    | E111 \<Rightarrow> Some ((sem_post encryptor_reset_ready s)\<lparr>e_pc := E114\<rparr>)
    | E114 \<Rightarrow> Some (s\<lparr>e_pc := (if not_EOF (e_c s) then E115 else E118)\<rparr>)
    | E115 \<Rightarrow> map_option (\<lambda>t. t\<lparr>e_pc := E116\<rparr>) (sem_wait output_counter_done s)
    | E116 \<Rightarrow> map_option (\<lambda>t. t\<lparr>e_pc := E118\<rparr>) (sem_wait writer_done s)
    | E118 \<Rightarrow> Some (s\<lparr>e_pc := (if not_EOF (e_c s) then E98 else E121)\<rparr>)
    | E121 \<Rightarrow> Some (s\<lparr>output_buffer := (output_buffer s)[output_buffer_in s := word_of_int EOF],
                       e_pc := E122\<rparr>)
    | E122 \<Rightarrow> Some (s\<lparr>output_buffer_in := (output_buffer_in s + 1) mod m s, e_pc := E123\<rparr>)
    | E123 \<Rightarrow> Some ((sem_post output_counter_data_ready s)\<lparr>e_pc := E124\<rparr>)
    | E124 \<Rightarrow> Some ((sem_post writer_data_ready s)\<lparr>e_pc := E125\<rparr>)
    | E125 \<Rightarrow> None)"

text \<open>Lines 129 to 141.\<close>

definition outputCounterThread :: "state \<Rightarrow> state option" where
  "outputCounterThread s = (case o_pc s of
      O132 \<Rightarrow> map_option (\<lambda>t. t\<lparr>o_pc := O133\<rparr>) (sem_wait output_counter_data_ready s)
    | O133 \<Rightarrow> Some (s\<lparr>o_c := output_buffer s ! output_buffer_out s, o_pc := O134\<rparr>)
    | O134 \<Rightarrow> Some (s\<lparr>o_pc := (if not_EOF (o_c s) then O135 else O137)\<rparr>)
    | O135 \<Rightarrow> Some ((count_output (o_c s) s)\<lparr>o_pc := O137\<rparr>)
    | O137 \<Rightarrow> Some ((sem_post output_counter_done s)\<lparr>o_pc := O138\<rparr>)
    | O138 \<Rightarrow> Some ((sem_post output_counter_reset_ready s)\<lparr>o_pc := O139\<rparr>)
    | O139 \<Rightarrow> Some (s\<lparr>o_pc := (if not_EOF (o_c s) then O132 else O140)\<rparr>)
    | O140 \<Rightarrow> None)"

text \<open>Lines 144 to 158.\<close>

definition writerThread :: "state \<Rightarrow> state option" where
  "writerThread s = (case w_pc s of
      W147 \<Rightarrow> map_option (\<lambda>t. t\<lparr>w_pc := W148\<rparr>) (sem_wait writer_data_ready s)
    | W148 \<Rightarrow> Some (s\<lparr>w_c := output_buffer s ! output_buffer_out s, w_pc := W149\<rparr>)
    | W149 \<Rightarrow> Some (s\<lparr>output_buffer_out := (output_buffer_out s + 1) mod m s, w_pc := W151\<rparr>)
    | W151 \<Rightarrow> Some (s\<lparr>w_pc := (if not_EOF (w_c s) then W152 else W154)\<rparr>)
    | W152 \<Rightarrow> Some ((write_output (w_c s) s)\<lparr>w_pc := W154\<rparr>)
    | W154 \<Rightarrow> Some ((sem_post writer_done s)\<lparr>w_pc := W155\<rparr>)
    | W155 \<Rightarrow> Some ((sem_post writer_reset_ready s)\<lparr>w_pc := W156\<rparr>)
    | W156 \<Rightarrow> Some (s\<lparr>w_pc := (if not_EOF (w_c s) then W147 else W157)\<rparr>)
    | W157 \<Rightarrow> None)"

section \<open>The reset controller\<close>

text \<open>
  Lines 161 to 182, run by a thread of the encrypt module: \<open>reset_requested\<close>
  (lines 162 to 176), then \<open>reset_finished\<close> (line 181), then the next request.
\<close>

definition resetThread :: "state \<Rightarrow> state option" where
  "resetThread s = (case c_pc s of
      C162 \<Rightarrow> map_option (\<lambda>t. t\<lparr>c_pc := C163\<rparr>) (pthread_mutex_lock s)
    | C163 \<Rightarrow> map_option (\<lambda>t. t\<lparr>c_pc := C164\<rparr>) (sem_wait counter_reset_ready s)
    | C164 \<Rightarrow> map_option (\<lambda>t. t\<lparr>c_pc := C165\<rparr>) (sem_wait encryptor_reset_ready s)
    | C165 \<Rightarrow> map_option (\<lambda>t. t\<lparr>c_pc := C166\<rparr>) (sem_wait output_counter_reset_ready s)
    | C166 \<Rightarrow> map_option (\<lambda>t. t\<lparr>c_pc := C169\<rparr>) (sem_wait writer_reset_ready s)
    | C169 \<Rightarrow> Some (s\<lparr>input_buffer_in := 0, c_pc := C170\<rparr>)
    | C170 \<Rightarrow> Some (s\<lparr>input_buffer_out := 0, c_pc := C171\<rparr>)
    | C171 \<Rightarrow> Some (s\<lparr>output_buffer_in := 0, c_pc := C172\<rparr>)
    | C172 \<Rightarrow> Some (s\<lparr>output_buffer_out := 0, c_pc := C173\<rparr>)
    | C173 \<Rightarrow> Some (s\<lparr>input_count := 0, c_pc := C174\<rparr>)
    | C174 \<Rightarrow> Some (s\<lparr>output_count := 0, c_pc := C176\<rparr>)
    | C176 \<Rightarrow> Some ((log_counts s)\<lparr>c_pc := C181\<rparr>)
    | C181 \<Rightarrow> Some ((pthread_mutex_unlock s)\<lparr>c_pc := C162\<rparr>))"

section \<open>Interleaved runs\<close>

definition step :: "(cchar \<Rightarrow> cchar) \<Rightarrow> thread \<Rightarrow> state \<Rightarrow> state option" where
  "step enc t s = (case t of
      Reader \<Rightarrow> readerThread s
    | InputCounter \<Rightarrow> inputCounterThread s
    | Encryptor \<Rightarrow> encryptorThread enc s
    | OutputCounter \<Rightarrow> outputCounterThread s
    | Writer \<Rightarrow> writerThread s
    | ResetController \<Rightarrow> resetThread s)"

text \<open>
  A schedule names the thread that takes each step. A schedule that names a thread
  which cannot move is not a run of the program.
\<close>

fun run :: "(cchar \<Rightarrow> cchar) \<Rightarrow> thread list \<Rightarrow> state \<Rightarrow> state option" where
  "run enc [] s = Some s"
| "run enc (t # ts) s = (case step enc t s of None \<Rightarrow> None | Some s' \<Rightarrow> run enc ts s')"

text \<open>
  The state in which \<open>main\<close> creates the threads (lines 208 to 247): the buffers are
  fresh from \<open>malloc\<close>, so their contents \<open>ib\<close> and \<open>ob\<close> are whatever the
  allocator left there; every semaphore is 0, the lock is free, the cursors and the
  counts are 0. The local \<open>c\<close> of each thread is written before it is read.
\<close>

definition init :: "cchar list \<Rightarrow> cchar list \<Rightarrow> cchar list \<Rightarrow> state" where
  "init ib ob src =
     \<lparr>n = length ib, m = length ob, input_buffer = ib, output_buffer = ob,
      input_buffer_in = 0, input_buffer_out = 0, output_buffer_in = 0, output_buffer_out = 0,
      input_count = 0, output_count = 0, sems = (\<lambda>x. 0), reader_lock = False,
      r_pc = R54, r_c = 0, i_pc = I82, i_c = 0, e_pc = E98, e_c = 0,
      o_pc = O132, o_c = 0, w_pc = W147, w_c = 0, c_pc = C162,
      source = src, counted_in = [], counted_out = [], sink = [], log = []\<rparr>"

text \<open>The five stage threads have returned: \<open>main\<close> gets past its joins.\<close>

definition all_returned :: "state \<Rightarrow> bool" where
  "all_returned s \<longleftrightarrow>
     r_pc s = R75 \<and> i_pc s = I91 \<and> e_pc s = E125 \<and> o_pc s = O140 \<and> w_pc s = W157"

definition stages :: "thread list" where
  "stages = [Reader, InputCounter, Encryptor, OutputCounter, Writer]"


text \<open>The state a run leads to, and whether any stage thread can still move.\<close>

definition final :: "(cchar \<Rightarrow> cchar) \<Rightarrow> thread list \<Rightarrow> state \<Rightarrow> state" where
  "final enc sched s = (case run enc sched s of None \<Rightarrow> s | Some s' \<Rightarrow> s')"

definition blocked :: "(cchar \<Rightarrow> cchar) \<Rightarrow> state \<Rightarrow> bool" where
  "blocked enc s = list_all (\<lambda>t. step enc t s = None) stages"

section \<open>The reset functions as a whole\<close>

fun iterate :: "nat \<Rightarrow> (state \<Rightarrow> state option) \<Rightarrow> state \<Rightarrow> state option" where
  "iterate 0 f s = Some s"
| "iterate (Suc k) f s = (case f s of None \<Rightarrow> None | Some s' \<Rightarrow> iterate k f s')"

text \<open>
  The two parts of \<open>reset_requested\<close>: the lock and the four waits (lines 162 to
  166), then the six assignments and the log flush (lines 169 to 176).
\<close>

definition reset_waits :: "state \<Rightarrow> state option" where
  "reset_waits s = (if c_pc s = C162 then iterate 5 resetThread s else None)"

definition reset_zeroes :: "state \<Rightarrow> state option" where
  "reset_zeroes s = (if c_pc s = C169 then iterate 7 resetThread s else None)"

text \<open>
  \<open>reset_requested\<close> from its first statement to its return, with no step of another
  thread in between: the twelve statements of lines 162 to 176. It does not return when
  the lock is held or one of the four semaphores is at zero.
\<close>

definition reset_requested :: "state \<Rightarrow> state option" where
  "reset_requested s = (if c_pc s = C162 then iterate 12 resetThread s else None)"

definition reset_finished :: "state \<Rightarrow> state option" where
  "reset_finished s = (if c_pc s = C181 then resetThread s else None)"

section \<open>Startup: the capacity prompts of main\<close>

text \<open>
  \<open>n\<close> and \<open>m\<close> are C \<open>int\<close>s (line 40): 32-bit words, read as signed by the
  test \<open>n < 1\<close>.
\<close>

type_synonym cint = "32 word"

text \<open>
  \<open>scanf("%d", &v)\<close> on a standard input that holds the decimal integers \<open>inp\<close>.
  The value read is stored into an \<open>int\<close>: one that an \<open>int\<close> cannot hold is
  stored reduced modulo \<open>2 ^ 32\<close> (4294967296 as 0, 4294967298 as 2). At the end of
  the input nothing is stored and \<open>v\<close> keeps its value.
\<close>

definition scanf_d :: "cint \<Rightarrow> int list \<Rightarrow> cint \<times> int list" where
  "scanf_d v inp = (case inp of [] \<Rightarrow> (v, []) | x # xs \<Rightarrow> (word_of_int x, xs))"

text \<open>
  The loops of lines 195 to 199 and 201 to 205: read a value, print
  "Invalid buffer, must be greater than 0" when it is below 1, and repeat while it is
  below 1. \<open>k\<close> counts the messages printed. The loop does not end when the input
  runs out of values of at least 1.
\<close>

partial_function (option) prompt :: "cint \<Rightarrow> int list \<Rightarrow> nat \<Rightarrow> (cint \<times> int list \<times> nat) option" where
  "prompt v inp k = (case scanf_d v inp of
      (v', inp') \<Rightarrow> if sint v' < 1 then prompt v' inp' (k + 1) else Some (v', inp', k))"

declare prompt.simps [code]

text \<open>An entry that the test of lines 198 and 199 (204 and 205) turns down.\<close>

definition below_one :: "int \<Rightarrow> bool" where
  "below_one x \<longleftrightarrow> sint (word_of_int x :: cint) < 1"

text \<open>
  What \<open>main\<close> has done when it reaches the thread creation of line 243, or before:
  an exit with a status, or the five threads created with capacities \<open>n\<close> and \<open>m\<close>
  after a number of "Invalid buffer" messages.
\<close>

datatype startup = Exit int | Threads_created cint cint nat

text \<open>
  Lines 184 to 247. \<open>n\<close> and \<open>m\<close> are globals, zero before the first
  \<open>scanf\<close>; \<open>malloc_ok\<close> says whether both allocations of lines 208 and 209
  succeed.
\<close>

definition main :: "int \<Rightarrow> int list \<Rightarrow> bool \<Rightarrow> startup option" where
  "main argc inp malloc_ok =
     (if argc \<noteq> 4 then Some (Exit 1)
      else case prompt 0 inp 0 of
        None \<Rightarrow> None
      | Some (nv, inp1, k1) \<Rightarrow>
          (case prompt 0 inp1 0 of
             None \<Rightarrow> None
           | Some (mv, inp2, k2) \<Rightarrow>
               if \<not> malloc_ok then Some (Exit 1)
               else Some (Threads_created nv mv (k1 + k2))))"

section \<open>Sample transform and schedules\<close>

text \<open>A transform to run the pipeline on: the next byte value.\<close>

definition shift1 :: "cchar \<Rightarrow> cchar" where
  "shift1 c = c + 1"

text \<open>
  One byte taken through the whole pipeline with every stage finishing before the next
  one starts: Reader up to its posts, InputCounter, Encryptor up to its post of
  \<open>encryptor_reset_ready\<close>, OutputCounter, Writer, Encryptor to its loop test,
  Reader to its loop test.
\<close>

definition item_in_order :: "thread list" where
  "item_in_order =
     replicate 6 Reader @ replicate 7 InputCounter @ replicate 10 Encryptor @
     replicate 7 OutputCounter @ replicate 8 Writer @ replicate 4 Encryptor @
     replicate 4 Reader"

text \<open>The end of the input taken through the pipeline in the same order.\<close>

definition eof_in_order :: "thread list" where
  "eof_in_order =
     replicate 6 Reader @ replicate 6 InputCounter @ replicate 12 Encryptor @
     replicate 6 Reader @ replicate 6 OutputCounter @ replicate 7 Writer"


text \<open>
  A byte for which the Encryptor advances \<open>input_buffer_out\<close> (line 100) before the
  InputCounter reads \<open>input_buffer[input_buffer_out]\<close> (line 83).
\<close>

definition item_retired_first :: "thread list" where
  "item_retired_first =
     replicate 6 Reader @ replicate 3 Encryptor @ replicate 2 InputCounter"

definition item_retired_first_rest :: "thread list" where
  "item_retired_first_rest =
     replicate 5 InputCounter @ replicate 7 Encryptor @ replicate 7 OutputCounter @
     replicate 8 Writer @ replicate 4 Encryptor @ replicate 4 Reader"

text \<open>The end of the input with the Encryptor again ahead of the InputCounter.\<close>

definition eof_retired_first :: "thread list" where
  "eof_retired_first =
     replicate 6 Reader @ replicate 3 Encryptor @ replicate 7 InputCounter @
     replicate 9 Encryptor @ replicate 6 Reader @ replicate 7 InputCounter @
     replicate 6 OutputCounter @ replicate 7 Writer"

definition race_schedule :: "thread list" where
  "race_schedule = item_in_order @ item_retired_first @ item_retired_first_rest @ eof_retired_first"

text \<open>
  A reset requested when the Reader has released the lock for the second byte while
  the Encryptor has that byte's output still in hand, and the rest of the run.
\<close>

definition reset_mid_item :: "thread list" where
  "reset_mid_item =
     item_in_order @
     replicate 6 Reader @ replicate 7 InputCounter @ replicate 4 Encryptor @
     replicate 4 Reader @ replicate 5 Encryptor @ replicate 12 ResetController"

definition reset_mid_item_rest :: "thread list" where
  "reset_mid_item_rest =
     replicate 8 Writer @ replicate 7 OutputCounter @ replicate 5 Encryptor @
     replicate 1 ResetController @
     replicate 6 Reader @ replicate 6 InputCounter @ replicate 12 Encryptor @
     replicate 6 Reader @ replicate 8 Writer @ replicate 6 OutputCounter"

text \<open>
  One byte for which the InputCounter stops after its two posts (lines 84 and 85),
  the other stages finish, and a reset is requested.
\<close>

definition counter_signals_first :: "thread list" where
  "counter_signals_first = replicate 6 Reader @ replicate 4 InputCounter"

definition reset_before_count :: "thread list" where
  "reset_before_count =
     counter_signals_first @ replicate 10 Encryptor @ replicate 7 OutputCounter @
     replicate 8 Writer @ replicate 4 Encryptor @ replicate 4 Reader @
     replicate 12 ResetController"


section \<open>Acknowledgments owed to the reset controller\<close>

text \<open>
  A stage owes its post of the reset-ready semaphore from the moment it has passed its
  data-ready wait until it has executed the post (line 85, 111, 138 or 155).
\<close>

definition counter_owes :: "state \<Rightarrow> nat" where
  "counter_owes s = (if i_pc s \<in> {I83, I84, I85} then 1 else 0)"

definition encryptor_owes :: "state \<Rightarrow> nat" where
  "encryptor_owes s =
     (if e_pc s \<in> {E99, E100, E101, E103, E104, E105, E108, E109, E111} then 1 else 0)"

definition output_counter_owes :: "state \<Rightarrow> nat" where
  "output_counter_owes s = (if o_pc s \<in> {O133, O134, O135, O137, O138} then 1 else 0)"

definition writer_owes :: "state \<Rightarrow> nat" where
  "writer_owes s = (if w_pc s \<in> {W148, W149, W151, W152, W154, W155} then 1 else 0)"

text \<open>The step is the stage's data-ready wait: the stage takes an item.\<close>

definition takes_item :: "thread \<Rightarrow> thread \<Rightarrow> state \<Rightarrow> nat" where
  "takes_item stage t s =
     (if t = stage \<and>
         (stage = InputCounter \<and> i_pc s = I82 \<or> stage = Encryptor \<and> e_pc s = E98 \<or>
          stage = OutputCounter \<and> o_pc s = O132 \<or> stage = Writer \<and> w_pc s = W147)
      then 1 else 0)"

section \<open>The hand-over from Reader to Encryptor to Writer\<close>

text \<open>
  What the Reader, the Encryptor and the Writer maintain between them, for any
  interleaving. The InputCounter and the OutputCounter take no part: the Reader and the
  Encryptor wait for them, but nothing these three read is written by a counter.
\<close>

text \<open>A byte that is not the sentinel and is not transformed into it.\<close>

definition plain :: "(cchar \<Rightarrow> cchar) \<Rightarrow> cchar \<Rightarrow> bool" where
  "plain enc b \<longleftrightarrow> not_EOF b \<and> not_EOF (enc b)"

text \<open>Capacities and cursors: the buffers have their capacity, the cursors are inside.\<close>

definition inv_bounds :: "state \<Rightarrow> bool" where
  "inv_bounds s \<longleftrightarrow>
     n s = length (input_buffer s) \<and> m s = length (output_buffer s) \<and>
     input_buffer_in s < n s \<and> input_buffer_out s < n s \<and>
     output_buffer_in s < m s \<and> output_buffer_out s < m s"

text \<open>
  The turn on the input buffer is in exactly one place: with the Reader (from its wait
  on \<open>encryptor_done\<close> to its post of \<open>encryptor_data_ready\<close>), in
  \<open>encryptor_data_ready\<close>, with the Encryptor (lines 99 to 101), or in
  \<open>encryptor_done\<close>.
\<close>

definition reader_turn :: "state \<Rightarrow> nat" where
  "reader_turn s = (if r_pc s \<in> {R66, R67, R75} then 0 else 1)"

definition encryptor_turn_in :: "state \<Rightarrow> nat" where
  "encryptor_turn_in s = (if e_pc s \<in> {E99, E100, E101} then 1 else 0)"

definition inv_turn_in :: "state \<Rightarrow> bool" where
  "inv_turn_in s \<longleftrightarrow>
     reader_turn s + sems s encryptor_data_ready + encryptor_turn_in s + sems s encryptor_done = 1"

text \<open>
  The turn on the output buffer: with the Encryptor (until it has posted
  \<open>writer_data_ready\<close>, and again once it is past its wait on \<open>writer_done\<close>),
  in \<open>writer_data_ready\<close>, with the Writer (lines 148 to 154), or in
  \<open>writer_done\<close>.
\<close>

definition encryptor_turn_out :: "state \<Rightarrow> nat" where
  "encryptor_turn_out s =
     (if e_pc s \<in> {E115, E116, E125} \<or> (e_pc s \<in> {E111, E114} \<and> not_EOF (e_c s)) then 0 else 1)"

definition writer_turn :: "state \<Rightarrow> nat" where
  "writer_turn s = (if w_pc s \<in> {W148, W149, W151, W152, W154} then 1 else 0)"

definition inv_turn_out :: "state \<Rightarrow> bool" where
  "inv_turn_out s \<longleftrightarrow>
     encryptor_turn_out s + sems s writer_data_ready + writer_turn s + sems s writer_done = 1"

text \<open>
  A slot of the input buffer is written and not yet retired: the Reader has advanced
  \<open>input_buffer_in\<close> and the Encryptor has not yet advanced \<open>input_buffer_out\<close>.
\<close>

definition in_flight_in :: "state \<Rightarrow> bool" where
  "in_flight_in s \<longleftrightarrow>
     r_pc s \<in> {R62, R63} \<or> (r_pc s \<in> {R66, R67} \<and> sems s encryptor_data_ready = 1) \<or>
     e_pc s \<in> {E99, E100}"

definition in_flight_out :: "state \<Rightarrow> bool" where
  "in_flight_out s \<longleftrightarrow>
     e_pc s \<in> {E108, E109, E123, E124} \<or> sems s writer_data_ready = 1 \<or> w_pc s \<in> {W148, W149}"

definition inv_cursor_in :: "state \<Rightarrow> bool" where
  "inv_cursor_in s \<longleftrightarrow>
     input_buffer_in s =
       (if in_flight_in s then (input_buffer_out s + 1) mod n s else input_buffer_out s)"

definition inv_cursor_out :: "state \<Rightarrow> bool" where
  "inv_cursor_out s \<longleftrightarrow>
     output_buffer_in s =
       (if in_flight_out s then (output_buffer_out s + 1) mod m s else output_buffer_out s)"

text \<open>What the slots hold while an item is handed over.\<close>

definition inv_slot_in :: "state \<Rightarrow> bool" where
  "inv_slot_in s \<longleftrightarrow>
     (r_pc s = R59 \<longrightarrow> input_buffer s ! input_buffer_in s = r_c s) \<and>
     (r_pc s \<in> {R62, R63} \<or> (r_pc s \<in> {R66, R67} \<and> sems s encryptor_data_ready = 1) \<or>
        e_pc s = E99 \<longrightarrow> input_buffer s ! input_buffer_out s = r_c s)"

definition inv_slot_out :: "(cchar \<Rightarrow> cchar) \<Rightarrow> state \<Rightarrow> bool" where
  "inv_slot_out enc s \<longleftrightarrow>
     (e_pc s = E105 \<longrightarrow> output_buffer s ! output_buffer_in s = enc (e_c s)) \<and>
     (e_pc s = E122 \<longrightarrow> output_buffer s ! output_buffer_in s = word_of_int EOF) \<and>
     (e_pc s \<in> {E108, E109} \<or>
        ((sems s writer_data_ready = 1 \<or> w_pc s = W148) \<and> e_pc s \<in> {E111, E114, E115, E116})
        \<longrightarrow> output_buffer s ! output_buffer_out s = enc (e_c s)) \<and>
     (e_pc s \<in> {E123, E124} \<or>
        ((sems s writer_data_ready = 1 \<or> w_pc s = W148) \<and> e_pc s = E125)
        \<longrightarrow> output_buffer s ! output_buffer_out s = word_of_int EOF)"

text \<open>What the local \<open>c\<close> of each of the three threads says.\<close>

definition inv_reader_c :: "(cchar \<Rightarrow> cchar) \<Rightarrow> state \<Rightarrow> bool" where
  "inv_reader_c enc s \<longleftrightarrow>
     list_all (plain enc) (source s) \<and>
     (r_pc s \<notin> {R54, R55} \<and> \<not> not_EOF (r_c s) \<longrightarrow> source s = []) \<and>
     (r_pc s \<notin> {R54, R55} \<and> not_EOF (r_c s) \<longrightarrow> not_EOF (enc (r_c s))) \<and>
     (r_pc s \<in> {R73, R74, R75} \<longrightarrow> \<not> not_EOF (r_c s))"

definition inv_encryptor_c :: "(cchar \<Rightarrow> cchar) \<Rightarrow> state \<Rightarrow> bool" where
  "inv_encryptor_c enc s \<longleftrightarrow>
     (e_pc s \<in> {E100, E101} \<longrightarrow> e_c s = r_c s) \<and>
     (sems s encryptor_done = 1 \<or> r_pc s \<in> {R69, R70, R73, R74, R75} \<longrightarrow> e_c s = r_c s) \<and>
     ((sems s encryptor_done = 1 \<or> r_pc s \<in> {R69, R70, R73, R74, R75}) \<and> \<not> not_EOF (r_c s)
        \<longrightarrow> e_pc s \<notin> {E98, E99, E100, E101}) \<and>
     (e_pc s \<in> {E104, E105, E108, E109, E115, E116} \<longrightarrow> not_EOF (e_c s)) \<and>
     (e_pc s \<in> {E121, E122, E123, E124, E125} \<longrightarrow> \<not> not_EOF (e_c s)) \<and>
     (e_pc s \<notin> {E98, E99} \<and> \<not> not_EOF (e_c s) \<longrightarrow>
        \<not> not_EOF (r_c s) \<and> source s = [] \<and> r_pc s \<in> {R66, R67, R69, R70, R73, R74, R75}) \<and>
     (e_pc s \<notin> {E98, E99} \<and> not_EOF (e_c s) \<longrightarrow> not_EOF (enc (e_c s)))"

definition inv_writer_c :: "state \<Rightarrow> bool" where
  "inv_writer_c s \<longleftrightarrow>
     (w_pc s = W152 \<longrightarrow> not_EOF (w_c s)) \<and>
     (w_pc s = W157 \<longrightarrow> \<not> not_EOF (w_c s)) \<and>
     (w_pc s \<in> {W149, W151, W154, W155, W156, W157} \<and> \<not> not_EOF (w_c s) \<longrightarrow> e_pc s = E125)"

text \<open>
  The bytes on their way: fetched by the Reader and not yet read by the Encryptor, read
  by the Encryptor and not yet read by the Writer, read by the Writer and not yet
  written to the sink.
\<close>

definition with_reader :: "state \<Rightarrow> cchar list" where
  "with_reader s =
     (if not_EOF (r_c s) \<and>
         (r_pc s \<in> {R58, R59, R62, R63} \<or>
          (r_pc s \<in> {R66, R67} \<and> (sems s encryptor_data_ready = 1 \<or> e_pc s = E99)))
      then [r_c s] else [])"

definition with_encryptor :: "(cchar \<Rightarrow> cchar) \<Rightarrow> state \<Rightarrow> cchar list" where
  "with_encryptor enc s =
     (if not_EOF (e_c s) \<and>
         (e_pc s \<in> {E100, E101, E103, E104, E105, E108, E109} \<or>
          (e_pc s \<in> {E111, E114, E115, E116} \<and> (sems s writer_data_ready = 1 \<or> w_pc s = W148)))
      then [enc (e_c s)] else [])"

definition with_writer :: "state \<Rightarrow> cchar list" where
  "with_writer s = (if not_EOF (w_c s) \<and> w_pc s \<in> {W149, W151, W152} then [w_c s] else [])"

definition inv_data :: "(cchar \<Rightarrow> cchar) \<Rightarrow> cchar list \<Rightarrow> state \<Rightarrow> bool" where
  "inv_data enc S s \<longleftrightarrow>
     sink s @ with_writer s @ with_encryptor enc s @ map enc (with_reader s @ source s) = map enc S"



section \<open>Runs of the pipeline on concrete inputs\<close>

text \<open>
  C2 (code_bug). Input "AB", input capacity 2, output capacity 1. For the second byte and
  for the end of the input the Encryptor advances \<open>input_buffer_out\<close> before the
  InputCounter has read its slot. The run ends with the Reader, the Encryptor, the
  OutputCounter and the Writer returned, and the InputCounter waiting at line 82 on
  \<open>counter_data_ready\<close>, which is 0: no stage thread can move, and the InputCounter
  loop has not been left.
\<close>

theorem C2_input_counter_never_returns:
  "run shift1 race_schedule (init [0, 0] [0] [65, 66]) \<noteq> None \<and>
   blocked shift1 (final shift1 race_schedule (init [0, 0] [0] [65, 66])) \<and>
   \<not> all_returned (final shift1 race_schedule (init [0, 0] [0] [65, 66])) \<and>
   i_pc (final shift1 race_schedule (init [0, 0] [0] [65, 66])) = I82 \<and>
   r_pc (final shift1 race_schedule (init [0, 0] [0] [65, 66])) = R75 \<and>
   sems (final shift1 race_schedule (init [0, 0] [0] [65, 66])) counter_data_ready = 0"
  by code_simp

text \<open>
  C3 (code_bug). In the same run the InputCounter takes all four posts of
  \<open>counter_data_ready\<close> (three items and the additional post of line 73) and reads
  65, 65, 66, 66: it counts four bytes for an input of two and never reads the
  sentinel that the Reader stored.
\<close>

theorem C3_input_counter_misses_sentinel:
  "run shift1 race_schedule (init [0, 0] [0] [65, 66]) \<noteq> None \<and>
   counted_in (final shift1 race_schedule (init [0, 0] [0] [65, 66])) = [65, 65, 66, 66] \<and>
   i_pc (final shift1 race_schedule (init [0, 0] [0] [65, 66])) \<noteq> I91 \<and>
   input_buffer (final shift1 race_schedule (init [0, 0] [0] [65, 66])) = [255, 66] \<and>
   input_buffer_out (final shift1 race_schedule (init [0, 0] [0] [65, 66])) = 1"
  by code_simp

text \<open>
  C4 (code_bug). Input "AB", input capacity 1, output capacity 2. The reset is requested
  after the first byte has gone through, when the Reader has released the lock for the
  second byte and the Encryptor has just stored that byte's output in slot 1. The four
  waits of lines 163 to 166 pass on the posts left by the first byte. When
  \<open>reset_requested\<close> returns, the cursors are 0 and \<open>writer_data_ready\<close> is 1;
  the Writer then reads slot 0. At the end the sink holds 66, 66, 67 instead of 66, 67,
  and the Writer waits at line 147 with no thread able to move.
\<close>

theorem C4_reset_mid_item_duplicates_output:
  "run shift1 (reset_mid_item @ reset_mid_item_rest) (init [0] [0, 0] [65, 66]) \<noteq> None \<and>
   c_pc (final shift1 reset_mid_item (init [0] [0, 0] [65, 66])) = C181 \<and>
   output_buffer_in (final shift1 reset_mid_item (init [0] [0, 0] [65, 66])) = 0 \<and>
   output_buffer_out (final shift1 reset_mid_item (init [0] [0, 0] [65, 66])) = 0 \<and>
   output_buffer (final shift1 reset_mid_item (init [0] [0, 0] [65, 66])) = [66, 67] \<and>
   sems (final shift1 reset_mid_item (init [0] [0, 0] [65, 66])) writer_data_ready = 1 \<and>
   sink (final shift1 reset_mid_item (init [0] [0, 0] [65, 66])) = [66] \<and>
   sink (final shift1 (reset_mid_item @ reset_mid_item_rest) (init [0] [0, 0] [65, 66]))
     = [66, 66, 67] \<and>
   w_pc (final shift1 (reset_mid_item @ reset_mid_item_rest) (init [0] [0, 0] [65, 66])) = W147 \<and>
   blocked shift1 (final shift1 (reset_mid_item @ reset_mid_item_rest) (init [0] [0, 0] [65, 66]))"
  by code_simp

text \<open>
  C5 (code_bug). Input "AB" and output capacity 1. With input capacity 1 the run in
  stage order counts the bytes 65, 66 and every stage returns. With input capacity 2
  the run of C2 counts 65, 65, 66, 66 and the InputCounter does not return.
\<close>

theorem C5_capacity_changes_counts:
  "run shift1 (item_in_order @ item_in_order @ eof_in_order) (init [0] [0] [65, 66]) \<noteq> None \<and>
   counted_in (final shift1 (item_in_order @ item_in_order @ eof_in_order) (init [0] [0] [65, 66]))
     = [65, 66] \<and>
   all_returned (final shift1 (item_in_order @ item_in_order @ eof_in_order) (init [0] [0] [65, 66])) \<and>
   run shift1 race_schedule (init [0, 0] [0] [65, 66]) \<noteq> None \<and>
   counted_in (final shift1 race_schedule (init [0, 0] [0] [65, 66])) \<noteq> [65, 66] \<and>
   \<not> all_returned (final shift1 race_schedule (init [0, 0] [0] [65, 66])) \<and>
   sink (final shift1 race_schedule (init [0, 0] [0] [65, 66]))
     = sink (final shift1 (item_in_order @ item_in_order @ eof_in_order) (init [0] [0] [65, 66]))"
  by code_simp

text \<open>
  C8 (code_bug). Input "A", both capacities 1. After its first four statements the
  InputCounter has posted \<open>counter_done\<close> and \<open>counter_reset_ready\<close> for the byte
  and has not yet handed it to \<open>count_input\<close>. The Reader goes on, a reset is
  requested, and the log flush of line 176 records one output byte and no input byte.
\<close>

theorem C8_input_counter_signals_before_counting:
  "run shift1 counter_signals_first (init [0] [0] [65]) \<noteq> None \<and>
   i_c (final shift1 counter_signals_first (init [0] [0] [65])) = 65 \<and>
   i_pc (final shift1 counter_signals_first (init [0] [0] [65])) = I87 \<and>
   sems (final shift1 counter_signals_first (init [0] [0] [65])) counter_done = 1 \<and>
   sems (final shift1 counter_signals_first (init [0] [0] [65])) counter_reset_ready = 1 \<and>
   counted_in (final shift1 counter_signals_first (init [0] [0] [65])) = [] \<and>
   run shift1 reset_before_count (init [0] [0] [65]) \<noteq> None \<and>
   log (final shift1 reset_before_count (init [0] [0] [65])) = [([], [66])]"
  by code_simp

text \<open>
  C9 (code_bug). Input "AB", input capacity 2. For the second byte the Reader stores 66
  in slot 1; the Encryptor reads it and advances \<open>input_buffer_out\<close> to 0 (line
  100); the InputCounter then executes line 83 and reads slot 0, the byte 65 of the item
  before: the slot was retired before the InputCounter observed it.
\<close>

theorem C9_slot_retired_before_counter_reads:
  "run shift1 (item_in_order @ item_retired_first) (init [0, 0] [0] [65, 66]) \<noteq> None \<and>
   input_buffer (final shift1 (item_in_order @ item_retired_first) (init [0, 0] [0] [65, 66]))
     = [65, 66] \<and>
   e_c (final shift1 (item_in_order @ item_retired_first) (init [0, 0] [0] [65, 66])) = 66 \<and>
   e_pc (final shift1 (item_in_order @ item_retired_first) (init [0, 0] [0] [65, 66])) = E101 \<and>
   input_buffer_out (final shift1 (item_in_order @ item_retired_first) (init [0, 0] [0] [65, 66])) = 0 \<and>
   i_pc (final shift1 (item_in_order @ item_retired_first) (init [0, 0] [0] [65, 66])) = I84 \<and>
   i_c (final shift1 (item_in_order @ item_retired_first) (init [0, 0] [0] [65, 66])) = 65"
  by code_simp
section \<open>Startup\<close>

lemma prompt_rejects:
  "list_all below_one rej \<Longrightarrow> \<not> below_one x \<Longrightarrow>
   prompt v (rej @ x # rest) k = Some (word_of_int x, rest, k + length rej)"
proof (induction rej arbitrary: v k)
  case Nil
  then show ?case by (subst prompt.simps) (simp add: scanf_d_def below_one_def)
next
  case (Cons y rej)
  from Cons.prems have "below_one y" by simp
  with Cons show ?case
    by (subst prompt.simps) (simp add: scanf_d_def below_one_def)
qed

lemma prompt_result:
  assumes a: "prompt v inp k = Some r"
  shows "1 \<le> sint (fst r)"
  by (rule prompt.raw_induct [where P = "\<lambda>v inp k r. 1 \<le> sint (fst r)", OF _ a])
     (auto simp: scanf_d_def split: prod.splits if_splits)

text \<open>With no value of at least 1 left to read, the prompt loop never ends.\<close>

lemma prompt_no_valid_entry:
  assumes "sint v < 1" and "list_all below_one inp"
  shows "prompt v inp k = None"
proof (cases "prompt v inp k")
  case None
  then show ?thesis .
next
  case (Some r)
  have "\<not> (sint v < 1 \<and> list_all below_one inp)"
    by (rule prompt.raw_induct
          [where P = "\<lambda>v inp k r. \<not> (sint v < 1 \<and> list_all below_one inp)", OF _ Some])
       (fastforce simp: scanf_d_def below_one_def split: prod.splits if_splits list.splits)
  with assms show ?thesis by simp
qed

text \<open>\<open>main\<close> exits with status 1, and only for the argument count or the allocation.\<close>

lemma main_exit:
  "main argc inp ok = Some (Exit st) \<Longrightarrow> st = 1 \<and> (argc \<noteq> 4 \<or> \<not> ok)"
  by (auto simp: main_def split: if_splits option.splits prod.splits)

lemma main_threads:
  "main argc inp ok = Some (Threads_created nv mv k) \<Longrightarrow>
   argc = 4 \<and> ok \<and> 1 \<le> sint nv \<and> 1 \<le> sint mv"
  by (auto simp: main_def split: if_splits option.splits prod.splits dest: prompt_result)

text \<open>
  C7 (corrected). A capacity below 1 is not fatal. With four arguments, whatever values
  below 1 are entered (\<open>rej1\<close> for the input capacity, \<open>rej2\<close> for the output
  capacity; a value is taken as the \<open>int\<close> that \<open>scanf\<close> stores), \<open>main\<close>
  prints one "Invalid buffer" message for each and prompts again; the first values of
  at least 1 become \<open>n\<close> and \<open>m\<close>, and the threads are created with them, or
  \<open>main\<close> exits with status 1 because the allocation failed. Whatever is entered,
  \<open>main\<close> exits with status 1 and only for a wrong argument count or a failed
  allocation, and it creates the threads only with four arguments, a successful
  allocation and both capacities at least 1.
\<close>

theorem C7_invalid_capacity_prompts_again:
  "(list_all below_one rej1 \<and> \<not> below_one x \<and> list_all below_one rej2 \<and> \<not> below_one y \<longrightarrow>
      main 4 (rej1 @ x # rej2 @ y # rest) ok =
        Some (if ok then Threads_created (word_of_int x) (word_of_int y) (length rej1 + length rej2)
              else Exit 1)) \<and>
   (main argc inp ok' = Some (Exit st) \<longrightarrow> st = 1 \<and> (argc \<noteq> 4 \<or> \<not> ok')) \<and>
   (main argc inp ok' = Some (Threads_created nv mv k) \<longrightarrow>
      argc = 4 \<and> ok' \<and> 1 \<le> sint nv \<and> 1 \<le> sint mv)"
proof (intro conjI impI)
  assume "list_all below_one rej1 \<and> \<not> below_one x \<and> list_all below_one rej2 \<and> \<not> below_one y"
  then show "main 4 (rej1 @ x # rej2 @ y # rest) ok =
      Some (if ok then Threads_created (word_of_int x) (word_of_int y) (length rej1 + length rej2)
            else Exit 1)"
    by (simp add: main_def prompt_rejects)
next
  assume "main argc inp ok' = Some (Exit st)"
  then show "st = 1" and "argc \<noteq> 4 \<or> \<not> ok'"
    using main_exit [of argc inp ok' st] by simp_all
next
  assume "main argc inp ok' = Some (Threads_created nv mv k)"
  then show "argc = 4" and "ok'" and "1 \<le> sint nv" and "1 \<le> sint mv"
    using main_threads [of argc inp ok' nv mv k] by simp_all
qed

text \<open>
  The theorem at work: three entries turned down for \<open>n\<close> (4294967296 is stored as
  0) and two for \<open>m\<close>; three arguments; a failed allocation; 4294967298 stored as 2.
\<close>

theorem C7_invalid_capacity_prompts_again_witness:
  "list_all below_one [0, - 3, 4294967296] \<and> \<not> below_one 2 \<and> list_all below_one [0, 0] \<and>
   \<not> below_one 5 \<and>
   main 4 [0, - 3, 4294967296, 2, 0, 0, 5] True = Some (Threads_created 2 5 5) \<and>
   main 3 [] True = Some (Exit 1) \<and>
   main 4 [7, 4294967298] False = Some (Exit 1) \<and>
   main 4 [7, 4294967298] True = Some (Threads_created 7 2 0)"
proof -
  have h: "list_all below_one [0, - 3, 4294967296] \<and> \<not> below_one 2 \<and>
           list_all below_one [0, 0] \<and> \<not> below_one 5"
    by code_simp
  have e1: "main 3 [] True = Some (Exit 1)"
    by code_simp
  have e2: "main 4 [7, 4294967298] False = Some (Exit 1)"
    by code_simp
  have t: "main 4 [7, 4294967298] True = Some (Threads_created 7 2 0)"
    by code_simp
  show ?thesis
    using C7_invalid_capacity_prompts_again
            [of "[0, - 3, 4294967296]" 2 "[0, 0]" 5 "[]" True 3 "[]" True 1 7 2 0]
          C7_invalid_capacity_prompts_again
            [of "[]" 7 "[]" 2 "[]" True 4 "[7, 4294967298]" False 1 7 2 0]
          C7_invalid_capacity_prompts_again
            [of "[]" 7 "[]" 2 "[]" True 4 "[7, 4294967298]" True 1 7 2 0]
          h e1 e2 t
    by simp
qed

text \<open>
  The claim as stated fails: the capacity 0 is entered first, and \<open>main\<close> neither
  exits nor stops; it goes on to create the threads with capacities 3 and 2 after one
  message.
\<close>

theorem C7_invalid_capacity_not_fatal:
  "main 4 [0, 3, 2] True = Some (Threads_created 3 2 1)"
  by code_simp

section \<open>The reset\<close>

lemma iterate_12:
  "iterate 12 f s =
     Option.bind (f s) (\<lambda>s. Option.bind (f s) (\<lambda>s. Option.bind (f s) (\<lambda>s. Option.bind (f s)
    (\<lambda>s. Option.bind (f s) (\<lambda>s. Option.bind (f s) (\<lambda>s. Option.bind (f s) (\<lambda>s. Option.bind (f s)
    (\<lambda>s. Option.bind (f s) (\<lambda>s. Option.bind (f s) (\<lambda>s. Option.bind (f s) f))))))))))"
  by (simp add: eval_nat_numeral split: option.splits)

text \<open>
  \<open>reset_requested\<close> returns exactly when the lock is free and each of the four
  reset-ready semaphores holds a post, and this is all it changes.
\<close>

lemma reset_requested_Some:
  "reset_requested s = Some s' \<longleftrightarrow>
     c_pc s = C162 \<and> \<not> reader_lock s \<and>
     0 < sems s counter_reset_ready \<and> 0 < sems s encryptor_reset_ready \<and>
     0 < sems s output_counter_reset_ready \<and> 0 < sems s writer_reset_ready \<and>
     s' = s\<lparr>input_buffer_in := 0, input_buffer_out := 0, output_buffer_in := 0,
            output_buffer_out := 0, input_count := 0, output_count := 0,
            sems := (sems s)(counter_reset_ready := sems s counter_reset_ready - 1,
                             encryptor_reset_ready := sems s encryptor_reset_ready - 1,
                             output_counter_reset_ready := sems s output_counter_reset_ready - 1,
                             writer_reset_ready := sems s writer_reset_ready - 1),
            reader_lock := True, c_pc := C181,
            log := log s @ [(counted_in s, counted_out s)]\<rparr>"
  by (auto simp: reset_requested_def iterate_12 resetThread_def pthread_mutex_lock_def
        sem_wait_def log_counts_def Option.bind_eq_Some_conv)

text \<open>The same for the two parts, and how they make up the whole.\<close>

lemma iterate_5:
  "iterate 5 f s =
     Option.bind (f s) (\<lambda>s. Option.bind (f s) (\<lambda>s. Option.bind (f s) (\<lambda>s. Option.bind (f s) f)))"
  by (simp add: eval_nat_numeral split: option.splits)

lemma iterate_7:
  "iterate 7 f s =
     Option.bind (f s) (\<lambda>s. Option.bind (f s) (\<lambda>s. Option.bind (f s) (\<lambda>s. Option.bind (f s)
    (\<lambda>s. Option.bind (f s) (\<lambda>s. Option.bind (f s) f)))))"
  by (simp add: eval_nat_numeral split: option.splits)

lemma reset_waits_Some:
  "reset_waits s = Some u \<longleftrightarrow>
     c_pc s = C162 \<and> \<not> reader_lock s \<and>
     0 < sems s counter_reset_ready \<and> 0 < sems s encryptor_reset_ready \<and>
     0 < sems s output_counter_reset_ready \<and> 0 < sems s writer_reset_ready \<and>
     u = s\<lparr>sems := (sems s)(counter_reset_ready := sems s counter_reset_ready - 1,
                           encryptor_reset_ready := sems s encryptor_reset_ready - 1,
                           output_counter_reset_ready := sems s output_counter_reset_ready - 1,
                           writer_reset_ready := sems s writer_reset_ready - 1),
            reader_lock := True, c_pc := C169\<rparr>"
  by (auto simp: reset_waits_def iterate_5 resetThread_def pthread_mutex_lock_def
        sem_wait_def Option.bind_eq_Some_conv)

lemma reset_zeroes_Some:
  "reset_zeroes u = Some s' \<longleftrightarrow>
     c_pc u = C169 \<and>
     s' = u\<lparr>input_buffer_in := 0, input_buffer_out := 0, output_buffer_in := 0,
            output_buffer_out := 0, input_count := 0, output_count := 0,
            c_pc := C181, log := log u @ [(counted_in u, counted_out u)]\<rparr>"
  by (auto simp: reset_zeroes_def iterate_7 resetThread_def log_counts_def
        Option.bind_eq_Some_conv)

lemma reset_requested_parts:
  assumes "reset_requested s = Some s'"
  shows "\<exists>u. reset_waits s = Some u \<and> reset_zeroes u = Some s'"
  using assms by (simp add: reset_requested_Some reset_waits_Some reset_zeroes_Some)

lemma Some_the: "x \<noteq> None \<Longrightarrow> x = Some (the x)"
  by simp

text \<open>
  C10 (confirmed). A reset leaves the contents of both buffers and the capacities
  \<open>n\<close> and \<open>m\<close> as they were (a buffer and its storage are one value here), and
  with them the source, the sink and the bytes counted. What it changes is the four
  cursors and the two counts, which become 0, and the log, which gets one more flush;
  to do so it takes the lock and one post of each reset-ready semaphore.
\<close>

theorem C10_reset_frame:
  assumes "reset_requested s = Some s'"
  shows "input_buffer s' = input_buffer s \<and> output_buffer s' = output_buffer s \<and>
         n s' = n s \<and> m s' = m s \<and>
         source s' = source s \<and> sink s' = sink s \<and>
         counted_in s' = counted_in s \<and> counted_out s' = counted_out s \<and>
         input_buffer_in s' = 0 \<and> input_buffer_out s' = 0 \<and>
         output_buffer_in s' = 0 \<and> output_buffer_out s' = 0 \<and>
         input_count s' = 0 \<and> output_count s' = 0 \<and>
         log s' = log s @ [(counted_in s, counted_out s)]"
  using assms by (simp add: reset_requested_Some)

theorem C10_reset_frame_witness:
  "reset_requested (final shift1 item_in_order (init [0, 0] [0, 0] [65, 66])) \<noteq> None \<and>
   input_buffer (the (reset_requested (final shift1 item_in_order (init [0, 0] [0, 0] [65, 66]))))
     = [65, 0] \<and>
   output_buffer (the (reset_requested (final shift1 item_in_order (init [0, 0] [0, 0] [65, 66]))))
     = [66, 0] \<and>
   n (the (reset_requested (final shift1 item_in_order (init [0, 0] [0, 0] [65, 66])))) = 2 \<and>
   m (the (reset_requested (final shift1 item_in_order (init [0, 0] [0, 0] [65, 66])))) = 2 \<and>
   input_buffer_out (final shift1 item_in_order (init [0, 0] [0, 0] [65, 66])) = 1 \<and>
   input_buffer_out (the (reset_requested (final shift1 item_in_order (init [0, 0] [0, 0] [65, 66]))))
     = 0"
proof -
  have h: "reset_requested (final shift1 item_in_order (init [0, 0] [0, 0] [65, 66])) \<noteq> None"
    by code_simp
  have b: "input_buffer (final shift1 item_in_order (init [0, 0] [0, 0] [65, 66])) = [65, 0] \<and>
           output_buffer (final shift1 item_in_order (init [0, 0] [0, 0] [65, 66])) = [66, 0] \<and>
           n (final shift1 item_in_order (init [0, 0] [0, 0] [65, 66])) = 2 \<and>
           m (final shift1 item_in_order (init [0, 0] [0, 0] [65, 66])) = 2 \<and>
           input_buffer_out (final shift1 item_in_order (init [0, 0] [0, 0] [65, 66])) = 1"
    by code_simp
  show ?thesis
    using C10_reset_frame [OF Some_the [OF h]] h b by simp
qed

lemmas prim_defs = sem_wait_def sem_post_def pthread_mutex_lock_def pthread_mutex_unlock_def
  count_input_def count_output_def write_output_def log_counts_def

lemma counter_acks:
  "inputCounterThread s = Some s' \<Longrightarrow>
   sems s' counter_reset_ready + counter_owes s'
     = sems s counter_reset_ready + counter_owes s + (if i_pc s = I82 then 1 else 0)"
  by (cases "i_pc s") (auto simp: inputCounterThread_def prim_defs counter_owes_def split: if_splits)

lemma encryptor_acks:
  "encryptorThread enc s = Some s' \<Longrightarrow>
   sems s' encryptor_reset_ready + encryptor_owes s'
     = sems s encryptor_reset_ready + encryptor_owes s + (if e_pc s = E98 then 1 else 0)"
  by (cases "e_pc s") (auto simp: encryptorThread_def prim_defs encryptor_owes_def split: if_splits)

lemma output_counter_acks:
  "outputCounterThread s = Some s' \<Longrightarrow>
   sems s' output_counter_reset_ready + output_counter_owes s'
     = sems s output_counter_reset_ready + output_counter_owes s + (if o_pc s = O132 then 1 else 0)"
  by (cases "o_pc s") (auto simp: outputCounterThread_def prim_defs output_counter_owes_def split: if_splits)

lemma writer_acks:
  "writerThread s = Some s' \<Longrightarrow>
   sems s' writer_reset_ready + writer_owes s'
     = sems s writer_reset_ready + writer_owes s + (if w_pc s = W147 then 1 else 0)"
  by (cases "w_pc s") (auto simp: writerThread_def prim_defs writer_owes_def split: if_splits)

text \<open>What each stage leaves alone.\<close>

lemma reader_frame:
  "readerThread s = Some s' \<Longrightarrow>
   i_pc s' = i_pc s \<and> e_pc s' = e_pc s \<and> o_pc s' = o_pc s \<and> w_pc s' = w_pc s \<and>
   sems s' counter_reset_ready = sems s counter_reset_ready \<and>
   sems s' encryptor_reset_ready = sems s encryptor_reset_ready \<and>
   sems s' output_counter_reset_ready = sems s output_counter_reset_ready \<and>
   sems s' writer_reset_ready = sems s writer_reset_ready"
  by (cases "r_pc s") (auto simp: readerThread_def prim_defs split: if_splits prod.splits)

lemma counter_frame:
  "inputCounterThread s = Some s' \<Longrightarrow>
   e_pc s' = e_pc s \<and> o_pc s' = o_pc s \<and> w_pc s' = w_pc s \<and>
   sems s' encryptor_reset_ready = sems s encryptor_reset_ready \<and>
   sems s' output_counter_reset_ready = sems s output_counter_reset_ready \<and>
   sems s' writer_reset_ready = sems s writer_reset_ready"
  by (cases "i_pc s") (auto simp: inputCounterThread_def prim_defs split: if_splits)

lemma encryptor_frame:
  "encryptorThread enc s = Some s' \<Longrightarrow>
   i_pc s' = i_pc s \<and> o_pc s' = o_pc s \<and> w_pc s' = w_pc s \<and>
   sems s' counter_reset_ready = sems s counter_reset_ready \<and>
   sems s' output_counter_reset_ready = sems s output_counter_reset_ready \<and>
   sems s' writer_reset_ready = sems s writer_reset_ready"
  by (cases "e_pc s") (auto simp: encryptorThread_def prim_defs split: if_splits)

lemma output_counter_frame:
  "outputCounterThread s = Some s' \<Longrightarrow>
   i_pc s' = i_pc s \<and> e_pc s' = e_pc s \<and> w_pc s' = w_pc s \<and>
   sems s' counter_reset_ready = sems s counter_reset_ready \<and>
   sems s' encryptor_reset_ready = sems s encryptor_reset_ready \<and>
   sems s' writer_reset_ready = sems s writer_reset_ready"
  by (cases "o_pc s") (auto simp: outputCounterThread_def prim_defs split: if_splits)

lemma writer_frame:
  "writerThread s = Some s' \<Longrightarrow>
   i_pc s' = i_pc s \<and> e_pc s' = e_pc s \<and> o_pc s' = o_pc s \<and>
   sems s' counter_reset_ready = sems s counter_reset_ready \<and>
   sems s' encryptor_reset_ready = sems s encryptor_reset_ready \<and>
   sems s' output_counter_reset_ready = sems s output_counter_reset_ready"
  by (cases "w_pc s") (auto simp: writerThread_def prim_defs split: if_splits)

lemma acks_step:
  assumes "step enc t s = Some s'" and "t \<noteq> ResetController"
  shows "sems s' counter_reset_ready + counter_owes s'
        = sems s counter_reset_ready + counter_owes s + takes_item InputCounter t s"
    and "sems s' encryptor_reset_ready + encryptor_owes s'
        = sems s encryptor_reset_ready + encryptor_owes s + takes_item Encryptor t s"
    and "sems s' output_counter_reset_ready + output_counter_owes s'
        = sems s output_counter_reset_ready + output_counter_owes s + takes_item OutputCounter t s"
    and "sems s' writer_reset_ready + writer_owes s'
        = sems s writer_reset_ready + writer_owes s + takes_item Writer t s"
proof -
  consider "t = Reader" | "t = InputCounter" | "t = Encryptor" | "t = OutputCounter" | "t = Writer"
    using assms(2) by (cases t) auto
  then have "(sems s' counter_reset_ready + counter_owes s'
        = sems s counter_reset_ready + counter_owes s + takes_item InputCounter t s) \<and>
     (sems s' encryptor_reset_ready + encryptor_owes s'
        = sems s encryptor_reset_ready + encryptor_owes s + takes_item Encryptor t s) \<and>
     (sems s' output_counter_reset_ready + output_counter_owes s'
        = sems s output_counter_reset_ready + output_counter_owes s + takes_item OutputCounter t s) \<and>
     (sems s' writer_reset_ready + writer_owes s'
        = sems s writer_reset_ready + writer_owes s + takes_item Writer t s)"
  proof cases
    case 1
    with assms(1) have "readerThread s = Some s'" by (simp add: step_def)
    from reader_frame [OF this] 1 show ?thesis
      by (simp add: takes_item_def counter_owes_def encryptor_owes_def output_counter_owes_def writer_owes_def)
  next
    case 2
    with assms(1) have a: "inputCounterThread s = Some s'" by (simp add: step_def)
    from counter_frame [OF a] counter_acks [OF a] 2 show ?thesis
      by (simp add: takes_item_def encryptor_owes_def output_counter_owes_def writer_owes_def)
  next
    case 3
    with assms(1) have a: "encryptorThread enc s = Some s'" by (simp add: step_def)
    from encryptor_frame [OF a] encryptor_acks [OF a] 3 show ?thesis
      by (simp add: takes_item_def counter_owes_def output_counter_owes_def writer_owes_def)
  next
    case 4
    with assms(1) have a: "outputCounterThread s = Some s'" by (simp add: step_def)
    from output_counter_frame [OF a] output_counter_acks [OF a] 4 show ?thesis
      by (simp add: takes_item_def counter_owes_def encryptor_owes_def writer_owes_def)
  next
    case 5
    with assms(1) have a: "writerThread s = Some s'" by (simp add: step_def)
    from writer_frame [OF a] writer_acks [OF a] 5 show ?thesis
      by (simp add: takes_item_def counter_owes_def encryptor_owes_def output_counter_owes_def)
  qed
  then show "sems s' counter_reset_ready + counter_owes s'
        = sems s counter_reset_ready + counter_owes s + takes_item InputCounter t s"
    and "sems s' encryptor_reset_ready + encryptor_owes s'
        = sems s encryptor_reset_ready + encryptor_owes s + takes_item Encryptor t s"
    and "sems s' output_counter_reset_ready + output_counter_owes s'
        = sems s output_counter_reset_ready + output_counter_owes s + takes_item OutputCounter t s"
    and "sems s' writer_reset_ready + writer_owes s'
        = sems s writer_reset_ready + writer_owes s + takes_item Writer t s"
    by simp_all
qed

text \<open>
  C6 (corrected). Every stage other than the Reader posts its reset-ready semaphore once
  for each item it takes: over any step of a stage thread, the posts made plus the post
  owed grow by one exactly when the step is that stage's data-ready wait. And
  \<open>reset_requested\<close> waits once on each of the four semaphores: it takes one post
  from each and leaves the others where they are. It does so before it resets anything:
  when its lock and waits are done (the state \<open>u\<close> at line 169) the four posts are
  taken and the cursors, the counts and the log are as they were; the rest of the
  function zeroes the cursors and counts and touches no semaphore.
\<close>

theorem C6_one_post_per_item_one_wait_per_reset:
  "(step enc t s = Some s' \<and> t \<noteq> ResetController \<longrightarrow>
      sems s' counter_reset_ready + counter_owes s'
        = sems s counter_reset_ready + counter_owes s + takes_item InputCounter t s \<and>
      sems s' encryptor_reset_ready + encryptor_owes s'
        = sems s encryptor_reset_ready + encryptor_owes s + takes_item Encryptor t s \<and>
      sems s' output_counter_reset_ready + output_counter_owes s'
        = sems s output_counter_reset_ready + output_counter_owes s + takes_item OutputCounter t s \<and>
      sems s' writer_reset_ready + writer_owes s'
        = sems s writer_reset_ready + writer_owes s + takes_item Writer t s) \<and>
   (reset_requested s = Some s'' \<longrightarrow>
      sems s'' counter_reset_ready + 1 = sems s counter_reset_ready \<and>
      sems s'' encryptor_reset_ready + 1 = sems s encryptor_reset_ready \<and>
      sems s'' output_counter_reset_ready + 1 = sems s output_counter_reset_ready \<and>
      sems s'' writer_reset_ready + 1 = sems s writer_reset_ready) \<and>
   (reset_requested s = Some s'' \<longrightarrow>
      (\<exists>u. reset_waits s = Some u \<and> reset_zeroes u = Some s'' \<and> c_pc u = C169 \<and>
         sems u counter_reset_ready + 1 = sems s counter_reset_ready \<and>
         sems u encryptor_reset_ready + 1 = sems s encryptor_reset_ready \<and>
         sems u output_counter_reset_ready + 1 = sems s output_counter_reset_ready \<and>
         sems u writer_reset_ready + 1 = sems s writer_reset_ready \<and>
         input_buffer_in u = input_buffer_in s \<and> input_buffer_out u = input_buffer_out s \<and>
         output_buffer_in u = output_buffer_in s \<and> output_buffer_out u = output_buffer_out s \<and>
         input_count u = input_count s \<and> output_count u = output_count s \<and> log u = log s \<and>
         sems s'' = sems u \<and>
         input_buffer_in s'' = 0 \<and> input_buffer_out s'' = 0 \<and>
         output_buffer_in s'' = 0 \<and> output_buffer_out s'' = 0 \<and>
         input_count s'' = 0 \<and> output_count s'' = 0))"
proof (intro conjI impI)
  assume a: "step enc t s = Some s' \<and> t \<noteq> ResetController"
  then have b: "step enc t s = Some s'" and c: "t \<noteq> ResetController"
    by simp_all
  show "sems s' counter_reset_ready + counter_owes s'
        = sems s counter_reset_ready + counter_owes s + takes_item InputCounter t s"
    by (rule acks_step(1) [OF b c])
  show "sems s' encryptor_reset_ready + encryptor_owes s'
        = sems s encryptor_reset_ready + encryptor_owes s + takes_item Encryptor t s"
    by (rule acks_step(2) [OF b c])
  show "sems s' output_counter_reset_ready + output_counter_owes s'
        = sems s output_counter_reset_ready + output_counter_owes s + takes_item OutputCounter t s"
    by (rule acks_step(3) [OF b c])
  show "sems s' writer_reset_ready + writer_owes s'
        = sems s writer_reset_ready + writer_owes s + takes_item Writer t s"
    by (rule acks_step(4) [OF b c])
next
  assume "reset_requested s = Some s''"
  then show "sems s'' counter_reset_ready + 1 = sems s counter_reset_ready"
    and "sems s'' encryptor_reset_ready + 1 = sems s encryptor_reset_ready"
    and "sems s'' output_counter_reset_ready + 1 = sems s output_counter_reset_ready"
    and "sems s'' writer_reset_ready + 1 = sems s writer_reset_ready"
    by (auto simp: reset_requested_Some)
next
  assume r: "reset_requested s = Some s''"
  from reset_requested_parts [OF r] obtain u
    where w: "reset_waits s = Some u" and z: "reset_zeroes u = Some s''"
    by blast
  from w have 1: "c_pc u = C169"
    and 2: "sems u counter_reset_ready + 1 = sems s counter_reset_ready"
      "sems u encryptor_reset_ready + 1 = sems s encryptor_reset_ready"
      "sems u output_counter_reset_ready + 1 = sems s output_counter_reset_ready"
      "sems u writer_reset_ready + 1 = sems s writer_reset_ready"
    and 3: "input_buffer_in u = input_buffer_in s" "input_buffer_out u = input_buffer_out s"
      "output_buffer_in u = output_buffer_in s" "output_buffer_out u = output_buffer_out s"
      "input_count u = input_count s" "output_count u = output_count s" "log u = log s"
    by (auto simp: reset_waits_Some)
  from z have 4: "sems s'' = sems u"
    and 5: "input_buffer_in s'' = 0" "input_buffer_out s'' = 0"
      "output_buffer_in s'' = 0" "output_buffer_out s'' = 0"
      "input_count s'' = 0" "output_count s'' = 0"
    by (auto simp: reset_zeroes_Some)
  from w z 1 2 3 4 5
  show "\<exists>u. reset_waits s = Some u \<and> reset_zeroes u = Some s'' \<and> c_pc u = C169 \<and>
         sems u counter_reset_ready + 1 = sems s counter_reset_ready \<and>
         sems u encryptor_reset_ready + 1 = sems s encryptor_reset_ready \<and>
         sems u output_counter_reset_ready + 1 = sems s output_counter_reset_ready \<and>
         sems u writer_reset_ready + 1 = sems s writer_reset_ready \<and>
         input_buffer_in u = input_buffer_in s \<and> input_buffer_out u = input_buffer_out s \<and>
         output_buffer_in u = output_buffer_in s \<and> output_buffer_out u = output_buffer_out s \<and>
         input_count u = input_count s \<and> output_count u = output_count s \<and> log u = log s \<and>
         sems s'' = sems u \<and>
         input_buffer_in s'' = 0 \<and> input_buffer_out s'' = 0 \<and>
         output_buffer_in s'' = 0 \<and> output_buffer_out s'' = 0 \<and>
         input_count s'' = 0 \<and> output_count s'' = 0"
    by blast
qed

text \<open>
  The theorem at work: the InputCounter's wait after the Reader's first posts, and a
  reset requested after one byte has gone through two-slot buffers, when every cursor
  is 1 and every reset-ready semaphore holds one post. After the waits the cursors are
  still 1 and the posts are gone; after the whole function the cursors are 0.
\<close>

theorem C6_one_post_per_item_one_wait_per_reset_witness:
  "step shift1 InputCounter (final shift1 (replicate 6 Reader) (init [0] [0] [65])) \<noteq> None \<and>
   sems (the (step shift1 InputCounter (final shift1 (replicate 6 Reader) (init [0] [0] [65]))))
       counter_reset_ready
     + counter_owes
         (the (step shift1 InputCounter (final shift1 (replicate 6 Reader) (init [0] [0] [65])))) = 1 \<and>
   reset_requested (final shift1 item_in_order (init [0, 0] [0, 0] [65, 66])) \<noteq> None \<and>
   reset_waits (final shift1 item_in_order (init [0, 0] [0, 0] [65, 66])) \<noteq> None \<and>
   sems (the (reset_requested (final shift1 item_in_order (init [0, 0] [0, 0] [65, 66]))))
       writer_reset_ready + 1 = 1 \<and>
   sems (the (reset_waits (final shift1 item_in_order (init [0, 0] [0, 0] [65, 66]))))
       writer_reset_ready + 1 = 1 \<and>
   output_buffer_out (the (reset_waits (final shift1 item_in_order (init [0, 0] [0, 0] [65, 66]))))
     = 1 \<and>
   output_buffer_out (the (reset_requested (final shift1 item_in_order (init [0, 0] [0, 0] [65, 66]))))
     = 0"
proof -
  let ?a = "final shift1 (replicate 6 Reader) (init [0] [0] [65])"
  let ?b = "final shift1 item_in_order (init [0, 0] [0, 0] [65, 66])"
  have h1: "step shift1 InputCounter ?a \<noteq> None"
    by code_simp
  have v1: "sems ?a counter_reset_ready = 0 \<and> counter_owes ?a = 0 \<and>
            takes_item InputCounter InputCounter ?a = 1"
    by code_simp
  have h2: "reset_requested ?b \<noteq> None"
    by code_simp
  have v2: "sems ?b writer_reset_ready = 1 \<and> output_buffer_out ?b = 1"
    by code_simp
  from C6_one_post_per_item_one_wait_per_reset
         [of shift1 InputCounter ?a "the (step shift1 InputCounter ?a)" ?a] Some_the [OF h1]
  have 1: "sems (the (step shift1 InputCounter ?a)) counter_reset_ready
           + counter_owes (the (step shift1 InputCounter ?a))
           = sems ?a counter_reset_ready + counter_owes ?a + takes_item InputCounter InputCounter ?a"
    by blast
  from C6_one_post_per_item_one_wait_per_reset
         [of shift1 Reader ?b ?b "the (reset_requested ?b)"] Some_the [OF h2]
  have 2: "sems (the (reset_requested ?b)) writer_reset_ready + 1 = sems ?b writer_reset_ready"
    by blast
  from C6_one_post_per_item_one_wait_per_reset
         [of shift1 Reader ?b ?b "the (reset_requested ?b)"] Some_the [OF h2]
  obtain u where u: "reset_waits ?b = Some u"
    and 3: "sems u writer_reset_ready + 1 = sems ?b writer_reset_ready"
      "output_buffer_out u = output_buffer_out ?b"
      "output_buffer_out (the (reset_requested ?b)) = 0"
    by blast
  from u have 4: "the (reset_waits ?b) = u" "reset_waits ?b \<noteq> None"
    by simp_all
  show ?thesis
    using h1 h2 v1 v2 1 2 3 4 by simp
qed


text \<open>
  The claim as stated fails: after two bytes each reset-ready semaphore holds two posts,
  and when \<open>reset_requested\<close> has returned each still holds one. The acknowledgments
  are not drained.
\<close>

theorem C6_reset_leaves_acknowledgments:
  "run shift1 (item_in_order @ item_in_order @ replicate 12 ResetController)
     (init [0] [0] [65, 66]) \<noteq> None \<and>
   sems (final shift1 (item_in_order @ item_in_order) (init [0] [0] [65, 66]))
     counter_reset_ready = 2 \<and>
   c_pc (final shift1 (item_in_order @ item_in_order @ replicate 12 ResetController)
     (init [0] [0] [65, 66])) = C181 \<and>
   sems (final shift1 (item_in_order @ item_in_order @ replicate 12 ResetController)
     (init [0] [0] [65, 66])) counter_reset_ready = 1 \<and>
   sems (final shift1 (item_in_order @ item_in_order @ replicate 12 ResetController)
     (init [0] [0] [65, 66])) encryptor_reset_ready = 1 \<and>
   sems (final shift1 (item_in_order @ item_in_order @ replicate 12 ResetController)
     (init [0] [0] [65, 66])) output_counter_reset_ready = 1 \<and>
   sems (final shift1 (item_in_order @ item_in_order @ replicate 12 ResetController)
     (init [0] [0] [65, 66])) writer_reset_ready = 1"
  by code_simp

section \<open>The run that takes every byte through the stages in turn\<close>









section \<open>The hand-over is kept by every step\<close>


lemma not_EOF_iff: "not_EOF c \<longleftrightarrow> c \<noteq> - 1"
  by (simp add: not_EOF_def EOF_def) (metis sint_n1 signed_word_eqI)

lemma EOF_char [simp]: "\<not> not_EOF (word_of_int EOF)"
  by (simp add: not_EOF_iff EOF_def)

lemma mod_cursor [simp]: "i < k \<Longrightarrow> Suc i mod k < k"
  by (cases k) auto

lemma sem_wait_Some [simp]:
  "sem_wait x s = Some s' \<longleftrightarrow> sems s x \<noteq> 0 \<and> s' = s\<lparr>sems := (sems s)(x := sems s x - 1)\<rparr>"
  by (auto simp: sem_wait_def)

lemma pthread_mutex_lock_Some [simp]:
  "pthread_mutex_lock s = Some s' \<longleftrightarrow> \<not> reader_lock s \<and> s' = s\<lparr>reader_lock := True\<rparr>"
  by (auto simp: pthread_mutex_lock_def)

lemma read_input_cases:
  "read_input src = (v, rest) \<Longrightarrow>
   (src = [] \<and> v = EOF \<and> rest = []) \<or> (\<exists>b. src = b # rest \<and> v = uint b)"
  by (cases src) (auto simp: read_input_def)

section \<open>What each assertion depends on\<close>

text \<open>
  An update of a field that an assertion does not read leaves the assertion as it was;
  so does a post or a wait on a semaphore it does not read.
\<close>

lemma reader_turn_frame [simp]:
  "reader_turn (s\<lparr>n := vn\<rparr>) = reader_turn s"
  "reader_turn (s\<lparr>m := vm\<rparr>) = reader_turn s"
  "reader_turn (s\<lparr>input_buffer := vinputbuffer\<rparr>) = reader_turn s"
  "reader_turn (s\<lparr>output_buffer := voutputbuffer\<rparr>) = reader_turn s"
  "reader_turn (s\<lparr>input_buffer_in := vinputbufferin\<rparr>) = reader_turn s"
  "reader_turn (s\<lparr>input_buffer_out := vinputbufferout\<rparr>) = reader_turn s"
  "reader_turn (s\<lparr>output_buffer_in := voutputbufferin\<rparr>) = reader_turn s"
  "reader_turn (s\<lparr>output_buffer_out := voutputbufferout\<rparr>) = reader_turn s"
  "reader_turn (s\<lparr>input_count := vinputcount\<rparr>) = reader_turn s"
  "reader_turn (s\<lparr>output_count := voutputcount\<rparr>) = reader_turn s"
  "reader_turn (s\<lparr>reader_lock := vreaderlock\<rparr>) = reader_turn s"
  "reader_turn (s\<lparr>r_c := vrc\<rparr>) = reader_turn s"
  "reader_turn (s\<lparr>i_pc := vipc\<rparr>) = reader_turn s"
  "reader_turn (s\<lparr>i_c := vic\<rparr>) = reader_turn s"
  "reader_turn (s\<lparr>e_pc := vepc\<rparr>) = reader_turn s"
  "reader_turn (s\<lparr>e_c := vec\<rparr>) = reader_turn s"
  "reader_turn (s\<lparr>o_pc := vopc\<rparr>) = reader_turn s"
  "reader_turn (s\<lparr>o_c := voc\<rparr>) = reader_turn s"
  "reader_turn (s\<lparr>w_pc := vwpc\<rparr>) = reader_turn s"
  "reader_turn (s\<lparr>w_c := vwc\<rparr>) = reader_turn s"
  "reader_turn (s\<lparr>c_pc := vcpc\<rparr>) = reader_turn s"
  "reader_turn (s\<lparr>source := vsource\<rparr>) = reader_turn s"
  "reader_turn (s\<lparr>counted_in := vcountedin\<rparr>) = reader_turn s"
  "reader_turn (s\<lparr>counted_out := vcountedout\<rparr>) = reader_turn s"
  "reader_turn (s\<lparr>sink := vsink\<rparr>) = reader_turn s"
  "reader_turn (s\<lparr>log := vlog\<rparr>) = reader_turn s"
  "reader_turn (s\<lparr>sems := f\<rparr>) = reader_turn s"
  by (simp_all add: reader_turn_def)

lemma encryptor_turn_in_frame [simp]:
  "encryptor_turn_in (s\<lparr>n := vn\<rparr>) = encryptor_turn_in s"
  "encryptor_turn_in (s\<lparr>m := vm\<rparr>) = encryptor_turn_in s"
  "encryptor_turn_in (s\<lparr>input_buffer := vinputbuffer\<rparr>) = encryptor_turn_in s"
  "encryptor_turn_in (s\<lparr>output_buffer := voutputbuffer\<rparr>) = encryptor_turn_in s"
  "encryptor_turn_in (s\<lparr>input_buffer_in := vinputbufferin\<rparr>) = encryptor_turn_in s"
  "encryptor_turn_in (s\<lparr>input_buffer_out := vinputbufferout\<rparr>) = encryptor_turn_in s"
  "encryptor_turn_in (s\<lparr>output_buffer_in := voutputbufferin\<rparr>) = encryptor_turn_in s"
  "encryptor_turn_in (s\<lparr>output_buffer_out := voutputbufferout\<rparr>) = encryptor_turn_in s"
  "encryptor_turn_in (s\<lparr>input_count := vinputcount\<rparr>) = encryptor_turn_in s"
  "encryptor_turn_in (s\<lparr>output_count := voutputcount\<rparr>) = encryptor_turn_in s"
  "encryptor_turn_in (s\<lparr>reader_lock := vreaderlock\<rparr>) = encryptor_turn_in s"
  "encryptor_turn_in (s\<lparr>r_pc := vrpc\<rparr>) = encryptor_turn_in s"
  "encryptor_turn_in (s\<lparr>r_c := vrc\<rparr>) = encryptor_turn_in s"
  "encryptor_turn_in (s\<lparr>i_pc := vipc\<rparr>) = encryptor_turn_in s"
  "encryptor_turn_in (s\<lparr>i_c := vic\<rparr>) = encryptor_turn_in s"
  "encryptor_turn_in (s\<lparr>e_c := vec\<rparr>) = encryptor_turn_in s"
  "encryptor_turn_in (s\<lparr>o_pc := vopc\<rparr>) = encryptor_turn_in s"
  "encryptor_turn_in (s\<lparr>o_c := voc\<rparr>) = encryptor_turn_in s"
  "encryptor_turn_in (s\<lparr>w_pc := vwpc\<rparr>) = encryptor_turn_in s"
  "encryptor_turn_in (s\<lparr>w_c := vwc\<rparr>) = encryptor_turn_in s"
  "encryptor_turn_in (s\<lparr>c_pc := vcpc\<rparr>) = encryptor_turn_in s"
  "encryptor_turn_in (s\<lparr>source := vsource\<rparr>) = encryptor_turn_in s"
  "encryptor_turn_in (s\<lparr>counted_in := vcountedin\<rparr>) = encryptor_turn_in s"
  "encryptor_turn_in (s\<lparr>counted_out := vcountedout\<rparr>) = encryptor_turn_in s"
  "encryptor_turn_in (s\<lparr>sink := vsink\<rparr>) = encryptor_turn_in s"
  "encryptor_turn_in (s\<lparr>log := vlog\<rparr>) = encryptor_turn_in s"
  "encryptor_turn_in (s\<lparr>sems := f\<rparr>) = encryptor_turn_in s"
  by (simp_all add: encryptor_turn_in_def)

lemma encryptor_turn_out_frame [simp]:
  "encryptor_turn_out (s\<lparr>n := vn\<rparr>) = encryptor_turn_out s"
  "encryptor_turn_out (s\<lparr>m := vm\<rparr>) = encryptor_turn_out s"
  "encryptor_turn_out (s\<lparr>input_buffer := vinputbuffer\<rparr>) = encryptor_turn_out s"
  "encryptor_turn_out (s\<lparr>output_buffer := voutputbuffer\<rparr>) = encryptor_turn_out s"
  "encryptor_turn_out (s\<lparr>input_buffer_in := vinputbufferin\<rparr>) = encryptor_turn_out s"
  "encryptor_turn_out (s\<lparr>input_buffer_out := vinputbufferout\<rparr>) = encryptor_turn_out s"
  "encryptor_turn_out (s\<lparr>output_buffer_in := voutputbufferin\<rparr>) = encryptor_turn_out s"
  "encryptor_turn_out (s\<lparr>output_buffer_out := voutputbufferout\<rparr>) = encryptor_turn_out s"
  "encryptor_turn_out (s\<lparr>input_count := vinputcount\<rparr>) = encryptor_turn_out s"
  "encryptor_turn_out (s\<lparr>output_count := voutputcount\<rparr>) = encryptor_turn_out s"
  "encryptor_turn_out (s\<lparr>reader_lock := vreaderlock\<rparr>) = encryptor_turn_out s"
  "encryptor_turn_out (s\<lparr>r_pc := vrpc\<rparr>) = encryptor_turn_out s"
  "encryptor_turn_out (s\<lparr>r_c := vrc\<rparr>) = encryptor_turn_out s"
  "encryptor_turn_out (s\<lparr>i_pc := vipc\<rparr>) = encryptor_turn_out s"
  "encryptor_turn_out (s\<lparr>i_c := vic\<rparr>) = encryptor_turn_out s"
  "encryptor_turn_out (s\<lparr>o_pc := vopc\<rparr>) = encryptor_turn_out s"
  "encryptor_turn_out (s\<lparr>o_c := voc\<rparr>) = encryptor_turn_out s"
  "encryptor_turn_out (s\<lparr>w_pc := vwpc\<rparr>) = encryptor_turn_out s"
  "encryptor_turn_out (s\<lparr>w_c := vwc\<rparr>) = encryptor_turn_out s"
  "encryptor_turn_out (s\<lparr>c_pc := vcpc\<rparr>) = encryptor_turn_out s"
  "encryptor_turn_out (s\<lparr>source := vsource\<rparr>) = encryptor_turn_out s"
  "encryptor_turn_out (s\<lparr>counted_in := vcountedin\<rparr>) = encryptor_turn_out s"
  "encryptor_turn_out (s\<lparr>counted_out := vcountedout\<rparr>) = encryptor_turn_out s"
  "encryptor_turn_out (s\<lparr>sink := vsink\<rparr>) = encryptor_turn_out s"
  "encryptor_turn_out (s\<lparr>log := vlog\<rparr>) = encryptor_turn_out s"
  "encryptor_turn_out (s\<lparr>sems := f\<rparr>) = encryptor_turn_out s"
  by (simp_all add: encryptor_turn_out_def)

lemma writer_turn_frame [simp]:
  "writer_turn (s\<lparr>n := vn\<rparr>) = writer_turn s"
  "writer_turn (s\<lparr>m := vm\<rparr>) = writer_turn s"
  "writer_turn (s\<lparr>input_buffer := vinputbuffer\<rparr>) = writer_turn s"
  "writer_turn (s\<lparr>output_buffer := voutputbuffer\<rparr>) = writer_turn s"
  "writer_turn (s\<lparr>input_buffer_in := vinputbufferin\<rparr>) = writer_turn s"
  "writer_turn (s\<lparr>input_buffer_out := vinputbufferout\<rparr>) = writer_turn s"
  "writer_turn (s\<lparr>output_buffer_in := voutputbufferin\<rparr>) = writer_turn s"
  "writer_turn (s\<lparr>output_buffer_out := voutputbufferout\<rparr>) = writer_turn s"
  "writer_turn (s\<lparr>input_count := vinputcount\<rparr>) = writer_turn s"
  "writer_turn (s\<lparr>output_count := voutputcount\<rparr>) = writer_turn s"
  "writer_turn (s\<lparr>reader_lock := vreaderlock\<rparr>) = writer_turn s"
  "writer_turn (s\<lparr>r_pc := vrpc\<rparr>) = writer_turn s"
  "writer_turn (s\<lparr>r_c := vrc\<rparr>) = writer_turn s"
  "writer_turn (s\<lparr>i_pc := vipc\<rparr>) = writer_turn s"
  "writer_turn (s\<lparr>i_c := vic\<rparr>) = writer_turn s"
  "writer_turn (s\<lparr>e_pc := vepc\<rparr>) = writer_turn s"
  "writer_turn (s\<lparr>e_c := vec\<rparr>) = writer_turn s"
  "writer_turn (s\<lparr>o_pc := vopc\<rparr>) = writer_turn s"
  "writer_turn (s\<lparr>o_c := voc\<rparr>) = writer_turn s"
  "writer_turn (s\<lparr>w_c := vwc\<rparr>) = writer_turn s"
  "writer_turn (s\<lparr>c_pc := vcpc\<rparr>) = writer_turn s"
  "writer_turn (s\<lparr>source := vsource\<rparr>) = writer_turn s"
  "writer_turn (s\<lparr>counted_in := vcountedin\<rparr>) = writer_turn s"
  "writer_turn (s\<lparr>counted_out := vcountedout\<rparr>) = writer_turn s"
  "writer_turn (s\<lparr>sink := vsink\<rparr>) = writer_turn s"
  "writer_turn (s\<lparr>log := vlog\<rparr>) = writer_turn s"
  "writer_turn (s\<lparr>sems := f\<rparr>) = writer_turn s"
  by (simp_all add: writer_turn_def)

lemma in_flight_in_frame [simp]:
  "in_flight_in (s\<lparr>n := vn\<rparr>) = in_flight_in s"
  "in_flight_in (s\<lparr>m := vm\<rparr>) = in_flight_in s"
  "in_flight_in (s\<lparr>input_buffer := vinputbuffer\<rparr>) = in_flight_in s"
  "in_flight_in (s\<lparr>output_buffer := voutputbuffer\<rparr>) = in_flight_in s"
  "in_flight_in (s\<lparr>input_buffer_in := vinputbufferin\<rparr>) = in_flight_in s"
  "in_flight_in (s\<lparr>input_buffer_out := vinputbufferout\<rparr>) = in_flight_in s"
  "in_flight_in (s\<lparr>output_buffer_in := voutputbufferin\<rparr>) = in_flight_in s"
  "in_flight_in (s\<lparr>output_buffer_out := voutputbufferout\<rparr>) = in_flight_in s"
  "in_flight_in (s\<lparr>input_count := vinputcount\<rparr>) = in_flight_in s"
  "in_flight_in (s\<lparr>output_count := voutputcount\<rparr>) = in_flight_in s"
  "in_flight_in (s\<lparr>reader_lock := vreaderlock\<rparr>) = in_flight_in s"
  "in_flight_in (s\<lparr>r_c := vrc\<rparr>) = in_flight_in s"
  "in_flight_in (s\<lparr>i_pc := vipc\<rparr>) = in_flight_in s"
  "in_flight_in (s\<lparr>i_c := vic\<rparr>) = in_flight_in s"
  "in_flight_in (s\<lparr>e_c := vec\<rparr>) = in_flight_in s"
  "in_flight_in (s\<lparr>o_pc := vopc\<rparr>) = in_flight_in s"
  "in_flight_in (s\<lparr>o_c := voc\<rparr>) = in_flight_in s"
  "in_flight_in (s\<lparr>w_pc := vwpc\<rparr>) = in_flight_in s"
  "in_flight_in (s\<lparr>w_c := vwc\<rparr>) = in_flight_in s"
  "in_flight_in (s\<lparr>c_pc := vcpc\<rparr>) = in_flight_in s"
  "in_flight_in (s\<lparr>source := vsource\<rparr>) = in_flight_in s"
  "in_flight_in (s\<lparr>counted_in := vcountedin\<rparr>) = in_flight_in s"
  "in_flight_in (s\<lparr>counted_out := vcountedout\<rparr>) = in_flight_in s"
  "in_flight_in (s\<lparr>sink := vsink\<rparr>) = in_flight_in s"
  "in_flight_in (s\<lparr>log := vlog\<rparr>) = in_flight_in s"
  "encryptor_data_ready \<noteq> x \<Longrightarrow>
     in_flight_in (s\<lparr>sems := (sems s)(x := k)\<rparr>) = in_flight_in s"
  by (simp_all add: in_flight_in_def)

lemma in_flight_out_frame [simp]:
  "in_flight_out (s\<lparr>n := vn\<rparr>) = in_flight_out s"
  "in_flight_out (s\<lparr>m := vm\<rparr>) = in_flight_out s"
  "in_flight_out (s\<lparr>input_buffer := vinputbuffer\<rparr>) = in_flight_out s"
  "in_flight_out (s\<lparr>output_buffer := voutputbuffer\<rparr>) = in_flight_out s"
  "in_flight_out (s\<lparr>input_buffer_in := vinputbufferin\<rparr>) = in_flight_out s"
  "in_flight_out (s\<lparr>input_buffer_out := vinputbufferout\<rparr>) = in_flight_out s"
  "in_flight_out (s\<lparr>output_buffer_in := voutputbufferin\<rparr>) = in_flight_out s"
  "in_flight_out (s\<lparr>output_buffer_out := voutputbufferout\<rparr>) = in_flight_out s"
  "in_flight_out (s\<lparr>input_count := vinputcount\<rparr>) = in_flight_out s"
  "in_flight_out (s\<lparr>output_count := voutputcount\<rparr>) = in_flight_out s"
  "in_flight_out (s\<lparr>reader_lock := vreaderlock\<rparr>) = in_flight_out s"
  "in_flight_out (s\<lparr>r_pc := vrpc\<rparr>) = in_flight_out s"
  "in_flight_out (s\<lparr>r_c := vrc\<rparr>) = in_flight_out s"
  "in_flight_out (s\<lparr>i_pc := vipc\<rparr>) = in_flight_out s"
  "in_flight_out (s\<lparr>i_c := vic\<rparr>) = in_flight_out s"
  "in_flight_out (s\<lparr>e_c := vec\<rparr>) = in_flight_out s"
  "in_flight_out (s\<lparr>o_pc := vopc\<rparr>) = in_flight_out s"
  "in_flight_out (s\<lparr>o_c := voc\<rparr>) = in_flight_out s"
  "in_flight_out (s\<lparr>w_c := vwc\<rparr>) = in_flight_out s"
  "in_flight_out (s\<lparr>c_pc := vcpc\<rparr>) = in_flight_out s"
  "in_flight_out (s\<lparr>source := vsource\<rparr>) = in_flight_out s"
  "in_flight_out (s\<lparr>counted_in := vcountedin\<rparr>) = in_flight_out s"
  "in_flight_out (s\<lparr>counted_out := vcountedout\<rparr>) = in_flight_out s"
  "in_flight_out (s\<lparr>sink := vsink\<rparr>) = in_flight_out s"
  "in_flight_out (s\<lparr>log := vlog\<rparr>) = in_flight_out s"
  "writer_data_ready \<noteq> x \<Longrightarrow>
     in_flight_out (s\<lparr>sems := (sems s)(x := k)\<rparr>) = in_flight_out s"
  by (simp_all add: in_flight_out_def)

lemma with_reader_frame [simp]:
  "with_reader (s\<lparr>n := vn\<rparr>) = with_reader s"
  "with_reader (s\<lparr>m := vm\<rparr>) = with_reader s"
  "with_reader (s\<lparr>input_buffer := vinputbuffer\<rparr>) = with_reader s"
  "with_reader (s\<lparr>output_buffer := voutputbuffer\<rparr>) = with_reader s"
  "with_reader (s\<lparr>input_buffer_in := vinputbufferin\<rparr>) = with_reader s"
  "with_reader (s\<lparr>input_buffer_out := vinputbufferout\<rparr>) = with_reader s"
  "with_reader (s\<lparr>output_buffer_in := voutputbufferin\<rparr>) = with_reader s"
  "with_reader (s\<lparr>output_buffer_out := voutputbufferout\<rparr>) = with_reader s"
  "with_reader (s\<lparr>input_count := vinputcount\<rparr>) = with_reader s"
  "with_reader (s\<lparr>output_count := voutputcount\<rparr>) = with_reader s"
  "with_reader (s\<lparr>reader_lock := vreaderlock\<rparr>) = with_reader s"
  "with_reader (s\<lparr>i_pc := vipc\<rparr>) = with_reader s"
  "with_reader (s\<lparr>i_c := vic\<rparr>) = with_reader s"
  "with_reader (s\<lparr>e_c := vec\<rparr>) = with_reader s"
  "with_reader (s\<lparr>o_pc := vopc\<rparr>) = with_reader s"
  "with_reader (s\<lparr>o_c := voc\<rparr>) = with_reader s"
  "with_reader (s\<lparr>w_pc := vwpc\<rparr>) = with_reader s"
  "with_reader (s\<lparr>w_c := vwc\<rparr>) = with_reader s"
  "with_reader (s\<lparr>c_pc := vcpc\<rparr>) = with_reader s"
  "with_reader (s\<lparr>source := vsource\<rparr>) = with_reader s"
  "with_reader (s\<lparr>counted_in := vcountedin\<rparr>) = with_reader s"
  "with_reader (s\<lparr>counted_out := vcountedout\<rparr>) = with_reader s"
  "with_reader (s\<lparr>sink := vsink\<rparr>) = with_reader s"
  "with_reader (s\<lparr>log := vlog\<rparr>) = with_reader s"
  "encryptor_data_ready \<noteq> x \<Longrightarrow>
     with_reader (s\<lparr>sems := (sems s)(x := k)\<rparr>) = with_reader s"
  by (simp_all add: with_reader_def)

lemma with_encryptor_frame [simp]:
  "with_encryptor enc (s\<lparr>n := vn\<rparr>) = with_encryptor enc s"
  "with_encryptor enc (s\<lparr>m := vm\<rparr>) = with_encryptor enc s"
  "with_encryptor enc (s\<lparr>input_buffer := vinputbuffer\<rparr>) = with_encryptor enc s"
  "with_encryptor enc (s\<lparr>output_buffer := voutputbuffer\<rparr>) = with_encryptor enc s"
  "with_encryptor enc (s\<lparr>input_buffer_in := vinputbufferin\<rparr>) = with_encryptor enc s"
  "with_encryptor enc (s\<lparr>input_buffer_out := vinputbufferout\<rparr>) = with_encryptor enc s"
  "with_encryptor enc (s\<lparr>output_buffer_in := voutputbufferin\<rparr>) = with_encryptor enc s"
  "with_encryptor enc (s\<lparr>output_buffer_out := voutputbufferout\<rparr>) = with_encryptor enc s"
  "with_encryptor enc (s\<lparr>input_count := vinputcount\<rparr>) = with_encryptor enc s"
  "with_encryptor enc (s\<lparr>output_count := voutputcount\<rparr>) = with_encryptor enc s"
  "with_encryptor enc (s\<lparr>reader_lock := vreaderlock\<rparr>) = with_encryptor enc s"
  "with_encryptor enc (s\<lparr>r_pc := vrpc\<rparr>) = with_encryptor enc s"
  "with_encryptor enc (s\<lparr>r_c := vrc\<rparr>) = with_encryptor enc s"
  "with_encryptor enc (s\<lparr>i_pc := vipc\<rparr>) = with_encryptor enc s"
  "with_encryptor enc (s\<lparr>i_c := vic\<rparr>) = with_encryptor enc s"
  "with_encryptor enc (s\<lparr>o_pc := vopc\<rparr>) = with_encryptor enc s"
  "with_encryptor enc (s\<lparr>o_c := voc\<rparr>) = with_encryptor enc s"
  "with_encryptor enc (s\<lparr>w_c := vwc\<rparr>) = with_encryptor enc s"
  "with_encryptor enc (s\<lparr>c_pc := vcpc\<rparr>) = with_encryptor enc s"
  "with_encryptor enc (s\<lparr>source := vsource\<rparr>) = with_encryptor enc s"
  "with_encryptor enc (s\<lparr>counted_in := vcountedin\<rparr>) = with_encryptor enc s"
  "with_encryptor enc (s\<lparr>counted_out := vcountedout\<rparr>) = with_encryptor enc s"
  "with_encryptor enc (s\<lparr>sink := vsink\<rparr>) = with_encryptor enc s"
  "with_encryptor enc (s\<lparr>log := vlog\<rparr>) = with_encryptor enc s"
  "writer_data_ready \<noteq> x \<Longrightarrow>
     with_encryptor enc (s\<lparr>sems := (sems s)(x := k)\<rparr>) = with_encryptor enc s"
  by (simp_all add: with_encryptor_def)

lemma with_writer_frame [simp]:
  "with_writer (s\<lparr>n := vn\<rparr>) = with_writer s"
  "with_writer (s\<lparr>m := vm\<rparr>) = with_writer s"
  "with_writer (s\<lparr>input_buffer := vinputbuffer\<rparr>) = with_writer s"
  "with_writer (s\<lparr>output_buffer := voutputbuffer\<rparr>) = with_writer s"
  "with_writer (s\<lparr>input_buffer_in := vinputbufferin\<rparr>) = with_writer s"
  "with_writer (s\<lparr>input_buffer_out := vinputbufferout\<rparr>) = with_writer s"
  "with_writer (s\<lparr>output_buffer_in := voutputbufferin\<rparr>) = with_writer s"
  "with_writer (s\<lparr>output_buffer_out := voutputbufferout\<rparr>) = with_writer s"
  "with_writer (s\<lparr>input_count := vinputcount\<rparr>) = with_writer s"
  "with_writer (s\<lparr>output_count := voutputcount\<rparr>) = with_writer s"
  "with_writer (s\<lparr>reader_lock := vreaderlock\<rparr>) = with_writer s"
  "with_writer (s\<lparr>r_pc := vrpc\<rparr>) = with_writer s"
  "with_writer (s\<lparr>r_c := vrc\<rparr>) = with_writer s"
  "with_writer (s\<lparr>i_pc := vipc\<rparr>) = with_writer s"
  "with_writer (s\<lparr>i_c := vic\<rparr>) = with_writer s"
  "with_writer (s\<lparr>e_pc := vepc\<rparr>) = with_writer s"
  "with_writer (s\<lparr>e_c := vec\<rparr>) = with_writer s"
  "with_writer (s\<lparr>o_pc := vopc\<rparr>) = with_writer s"
  "with_writer (s\<lparr>o_c := voc\<rparr>) = with_writer s"
  "with_writer (s\<lparr>c_pc := vcpc\<rparr>) = with_writer s"
  "with_writer (s\<lparr>source := vsource\<rparr>) = with_writer s"
  "with_writer (s\<lparr>counted_in := vcountedin\<rparr>) = with_writer s"
  "with_writer (s\<lparr>counted_out := vcountedout\<rparr>) = with_writer s"
  "with_writer (s\<lparr>sink := vsink\<rparr>) = with_writer s"
  "with_writer (s\<lparr>log := vlog\<rparr>) = with_writer s"
  "with_writer (s\<lparr>sems := f\<rparr>) = with_writer s"
  by (simp_all add: with_writer_def)

lemma inv_bounds_frame [simp]:
  "inv_bounds (s\<lparr>input_count := vinputcount\<rparr>) = inv_bounds s"
  "inv_bounds (s\<lparr>output_count := voutputcount\<rparr>) = inv_bounds s"
  "inv_bounds (s\<lparr>reader_lock := vreaderlock\<rparr>) = inv_bounds s"
  "inv_bounds (s\<lparr>r_pc := vrpc\<rparr>) = inv_bounds s"
  "inv_bounds (s\<lparr>r_c := vrc\<rparr>) = inv_bounds s"
  "inv_bounds (s\<lparr>i_pc := vipc\<rparr>) = inv_bounds s"
  "inv_bounds (s\<lparr>i_c := vic\<rparr>) = inv_bounds s"
  "inv_bounds (s\<lparr>e_pc := vepc\<rparr>) = inv_bounds s"
  "inv_bounds (s\<lparr>e_c := vec\<rparr>) = inv_bounds s"
  "inv_bounds (s\<lparr>o_pc := vopc\<rparr>) = inv_bounds s"
  "inv_bounds (s\<lparr>o_c := voc\<rparr>) = inv_bounds s"
  "inv_bounds (s\<lparr>w_pc := vwpc\<rparr>) = inv_bounds s"
  "inv_bounds (s\<lparr>w_c := vwc\<rparr>) = inv_bounds s"
  "inv_bounds (s\<lparr>c_pc := vcpc\<rparr>) = inv_bounds s"
  "inv_bounds (s\<lparr>source := vsource\<rparr>) = inv_bounds s"
  "inv_bounds (s\<lparr>counted_in := vcountedin\<rparr>) = inv_bounds s"
  "inv_bounds (s\<lparr>counted_out := vcountedout\<rparr>) = inv_bounds s"
  "inv_bounds (s\<lparr>sink := vsink\<rparr>) = inv_bounds s"
  "inv_bounds (s\<lparr>log := vlog\<rparr>) = inv_bounds s"
  "inv_bounds (s\<lparr>sems := f\<rparr>) = inv_bounds s"
  by (simp_all add: inv_bounds_def)

lemma inv_turn_in_frame [simp]:
  "inv_turn_in (s\<lparr>n := vn\<rparr>) = inv_turn_in s"
  "inv_turn_in (s\<lparr>m := vm\<rparr>) = inv_turn_in s"
  "inv_turn_in (s\<lparr>input_buffer := vinputbuffer\<rparr>) = inv_turn_in s"
  "inv_turn_in (s\<lparr>output_buffer := voutputbuffer\<rparr>) = inv_turn_in s"
  "inv_turn_in (s\<lparr>input_buffer_in := vinputbufferin\<rparr>) = inv_turn_in s"
  "inv_turn_in (s\<lparr>input_buffer_out := vinputbufferout\<rparr>) = inv_turn_in s"
  "inv_turn_in (s\<lparr>output_buffer_in := voutputbufferin\<rparr>) = inv_turn_in s"
  "inv_turn_in (s\<lparr>output_buffer_out := voutputbufferout\<rparr>) = inv_turn_in s"
  "inv_turn_in (s\<lparr>input_count := vinputcount\<rparr>) = inv_turn_in s"
  "inv_turn_in (s\<lparr>output_count := voutputcount\<rparr>) = inv_turn_in s"
  "inv_turn_in (s\<lparr>reader_lock := vreaderlock\<rparr>) = inv_turn_in s"
  "inv_turn_in (s\<lparr>r_c := vrc\<rparr>) = inv_turn_in s"
  "inv_turn_in (s\<lparr>i_pc := vipc\<rparr>) = inv_turn_in s"
  "inv_turn_in (s\<lparr>i_c := vic\<rparr>) = inv_turn_in s"
  "inv_turn_in (s\<lparr>e_c := vec\<rparr>) = inv_turn_in s"
  "inv_turn_in (s\<lparr>o_pc := vopc\<rparr>) = inv_turn_in s"
  "inv_turn_in (s\<lparr>o_c := voc\<rparr>) = inv_turn_in s"
  "inv_turn_in (s\<lparr>w_pc := vwpc\<rparr>) = inv_turn_in s"
  "inv_turn_in (s\<lparr>w_c := vwc\<rparr>) = inv_turn_in s"
  "inv_turn_in (s\<lparr>c_pc := vcpc\<rparr>) = inv_turn_in s"
  "inv_turn_in (s\<lparr>source := vsource\<rparr>) = inv_turn_in s"
  "inv_turn_in (s\<lparr>counted_in := vcountedin\<rparr>) = inv_turn_in s"
  "inv_turn_in (s\<lparr>counted_out := vcountedout\<rparr>) = inv_turn_in s"
  "inv_turn_in (s\<lparr>sink := vsink\<rparr>) = inv_turn_in s"
  "inv_turn_in (s\<lparr>log := vlog\<rparr>) = inv_turn_in s"
  "encryptor_data_ready \<noteq> x \<Longrightarrow> encryptor_done \<noteq> x \<Longrightarrow>
     inv_turn_in (s\<lparr>sems := (sems s)(x := k)\<rparr>) = inv_turn_in s"
  by (simp_all add: inv_turn_in_def)

lemma inv_turn_out_frame [simp]:
  "inv_turn_out (s\<lparr>n := vn\<rparr>) = inv_turn_out s"
  "inv_turn_out (s\<lparr>m := vm\<rparr>) = inv_turn_out s"
  "inv_turn_out (s\<lparr>input_buffer := vinputbuffer\<rparr>) = inv_turn_out s"
  "inv_turn_out (s\<lparr>output_buffer := voutputbuffer\<rparr>) = inv_turn_out s"
  "inv_turn_out (s\<lparr>input_buffer_in := vinputbufferin\<rparr>) = inv_turn_out s"
  "inv_turn_out (s\<lparr>input_buffer_out := vinputbufferout\<rparr>) = inv_turn_out s"
  "inv_turn_out (s\<lparr>output_buffer_in := voutputbufferin\<rparr>) = inv_turn_out s"
  "inv_turn_out (s\<lparr>output_buffer_out := voutputbufferout\<rparr>) = inv_turn_out s"
  "inv_turn_out (s\<lparr>input_count := vinputcount\<rparr>) = inv_turn_out s"
  "inv_turn_out (s\<lparr>output_count := voutputcount\<rparr>) = inv_turn_out s"
  "inv_turn_out (s\<lparr>reader_lock := vreaderlock\<rparr>) = inv_turn_out s"
  "inv_turn_out (s\<lparr>r_pc := vrpc\<rparr>) = inv_turn_out s"
  "inv_turn_out (s\<lparr>r_c := vrc\<rparr>) = inv_turn_out s"
  "inv_turn_out (s\<lparr>i_pc := vipc\<rparr>) = inv_turn_out s"
  "inv_turn_out (s\<lparr>i_c := vic\<rparr>) = inv_turn_out s"
  "inv_turn_out (s\<lparr>o_pc := vopc\<rparr>) = inv_turn_out s"
  "inv_turn_out (s\<lparr>o_c := voc\<rparr>) = inv_turn_out s"
  "inv_turn_out (s\<lparr>w_c := vwc\<rparr>) = inv_turn_out s"
  "inv_turn_out (s\<lparr>c_pc := vcpc\<rparr>) = inv_turn_out s"
  "inv_turn_out (s\<lparr>source := vsource\<rparr>) = inv_turn_out s"
  "inv_turn_out (s\<lparr>counted_in := vcountedin\<rparr>) = inv_turn_out s"
  "inv_turn_out (s\<lparr>counted_out := vcountedout\<rparr>) = inv_turn_out s"
  "inv_turn_out (s\<lparr>sink := vsink\<rparr>) = inv_turn_out s"
  "inv_turn_out (s\<lparr>log := vlog\<rparr>) = inv_turn_out s"
  "writer_data_ready \<noteq> x \<Longrightarrow> writer_done \<noteq> x \<Longrightarrow>
     inv_turn_out (s\<lparr>sems := (sems s)(x := k)\<rparr>) = inv_turn_out s"
  by (simp_all add: inv_turn_out_def)

lemma inv_cursor_in_frame [simp]:
  "inv_cursor_in (s\<lparr>m := vm\<rparr>) = inv_cursor_in s"
  "inv_cursor_in (s\<lparr>input_buffer := vinputbuffer\<rparr>) = inv_cursor_in s"
  "inv_cursor_in (s\<lparr>output_buffer := voutputbuffer\<rparr>) = inv_cursor_in s"
  "inv_cursor_in (s\<lparr>output_buffer_in := voutputbufferin\<rparr>) = inv_cursor_in s"
  "inv_cursor_in (s\<lparr>output_buffer_out := voutputbufferout\<rparr>) = inv_cursor_in s"
  "inv_cursor_in (s\<lparr>input_count := vinputcount\<rparr>) = inv_cursor_in s"
  "inv_cursor_in (s\<lparr>output_count := voutputcount\<rparr>) = inv_cursor_in s"
  "inv_cursor_in (s\<lparr>reader_lock := vreaderlock\<rparr>) = inv_cursor_in s"
  "inv_cursor_in (s\<lparr>r_c := vrc\<rparr>) = inv_cursor_in s"
  "inv_cursor_in (s\<lparr>i_pc := vipc\<rparr>) = inv_cursor_in s"
  "inv_cursor_in (s\<lparr>i_c := vic\<rparr>) = inv_cursor_in s"
  "inv_cursor_in (s\<lparr>e_c := vec\<rparr>) = inv_cursor_in s"
  "inv_cursor_in (s\<lparr>o_pc := vopc\<rparr>) = inv_cursor_in s"
  "inv_cursor_in (s\<lparr>o_c := voc\<rparr>) = inv_cursor_in s"
  "inv_cursor_in (s\<lparr>w_pc := vwpc\<rparr>) = inv_cursor_in s"
  "inv_cursor_in (s\<lparr>w_c := vwc\<rparr>) = inv_cursor_in s"
  "inv_cursor_in (s\<lparr>c_pc := vcpc\<rparr>) = inv_cursor_in s"
  "inv_cursor_in (s\<lparr>source := vsource\<rparr>) = inv_cursor_in s"
  "inv_cursor_in (s\<lparr>counted_in := vcountedin\<rparr>) = inv_cursor_in s"
  "inv_cursor_in (s\<lparr>counted_out := vcountedout\<rparr>) = inv_cursor_in s"
  "inv_cursor_in (s\<lparr>sink := vsink\<rparr>) = inv_cursor_in s"
  "inv_cursor_in (s\<lparr>log := vlog\<rparr>) = inv_cursor_in s"
  "encryptor_data_ready \<noteq> x \<Longrightarrow>
     inv_cursor_in (s\<lparr>sems := (sems s)(x := k)\<rparr>) = inv_cursor_in s"
  by (simp_all add: inv_cursor_in_def)

lemma inv_cursor_out_frame [simp]:
  "inv_cursor_out (s\<lparr>n := vn\<rparr>) = inv_cursor_out s"
  "inv_cursor_out (s\<lparr>input_buffer := vinputbuffer\<rparr>) = inv_cursor_out s"
  "inv_cursor_out (s\<lparr>output_buffer := voutputbuffer\<rparr>) = inv_cursor_out s"
  "inv_cursor_out (s\<lparr>input_buffer_in := vinputbufferin\<rparr>) = inv_cursor_out s"
  "inv_cursor_out (s\<lparr>input_buffer_out := vinputbufferout\<rparr>) = inv_cursor_out s"
  "inv_cursor_out (s\<lparr>input_count := vinputcount\<rparr>) = inv_cursor_out s"
  "inv_cursor_out (s\<lparr>output_count := voutputcount\<rparr>) = inv_cursor_out s"
  "inv_cursor_out (s\<lparr>reader_lock := vreaderlock\<rparr>) = inv_cursor_out s"
  "inv_cursor_out (s\<lparr>r_pc := vrpc\<rparr>) = inv_cursor_out s"
  "inv_cursor_out (s\<lparr>r_c := vrc\<rparr>) = inv_cursor_out s"
  "inv_cursor_out (s\<lparr>i_pc := vipc\<rparr>) = inv_cursor_out s"
  "inv_cursor_out (s\<lparr>i_c := vic\<rparr>) = inv_cursor_out s"
  "inv_cursor_out (s\<lparr>e_c := vec\<rparr>) = inv_cursor_out s"
  "inv_cursor_out (s\<lparr>o_pc := vopc\<rparr>) = inv_cursor_out s"
  "inv_cursor_out (s\<lparr>o_c := voc\<rparr>) = inv_cursor_out s"
  "inv_cursor_out (s\<lparr>w_c := vwc\<rparr>) = inv_cursor_out s"
  "inv_cursor_out (s\<lparr>c_pc := vcpc\<rparr>) = inv_cursor_out s"
  "inv_cursor_out (s\<lparr>source := vsource\<rparr>) = inv_cursor_out s"
  "inv_cursor_out (s\<lparr>counted_in := vcountedin\<rparr>) = inv_cursor_out s"
  "inv_cursor_out (s\<lparr>counted_out := vcountedout\<rparr>) = inv_cursor_out s"
  "inv_cursor_out (s\<lparr>sink := vsink\<rparr>) = inv_cursor_out s"
  "inv_cursor_out (s\<lparr>log := vlog\<rparr>) = inv_cursor_out s"
  "writer_data_ready \<noteq> x \<Longrightarrow>
     inv_cursor_out (s\<lparr>sems := (sems s)(x := k)\<rparr>) = inv_cursor_out s"
  by (simp_all add: inv_cursor_out_def)

lemma inv_slot_in_frame [simp]:
  "inv_slot_in (s\<lparr>n := vn\<rparr>) = inv_slot_in s"
  "inv_slot_in (s\<lparr>m := vm\<rparr>) = inv_slot_in s"
  "inv_slot_in (s\<lparr>output_buffer := voutputbuffer\<rparr>) = inv_slot_in s"
  "inv_slot_in (s\<lparr>output_buffer_in := voutputbufferin\<rparr>) = inv_slot_in s"
  "inv_slot_in (s\<lparr>output_buffer_out := voutputbufferout\<rparr>) = inv_slot_in s"
  "inv_slot_in (s\<lparr>input_count := vinputcount\<rparr>) = inv_slot_in s"
  "inv_slot_in (s\<lparr>output_count := voutputcount\<rparr>) = inv_slot_in s"
  "inv_slot_in (s\<lparr>reader_lock := vreaderlock\<rparr>) = inv_slot_in s"
  "inv_slot_in (s\<lparr>i_pc := vipc\<rparr>) = inv_slot_in s"
  "inv_slot_in (s\<lparr>i_c := vic\<rparr>) = inv_slot_in s"
  "inv_slot_in (s\<lparr>e_c := vec\<rparr>) = inv_slot_in s"
  "inv_slot_in (s\<lparr>o_pc := vopc\<rparr>) = inv_slot_in s"
  "inv_slot_in (s\<lparr>o_c := voc\<rparr>) = inv_slot_in s"
  "inv_slot_in (s\<lparr>w_pc := vwpc\<rparr>) = inv_slot_in s"
  "inv_slot_in (s\<lparr>w_c := vwc\<rparr>) = inv_slot_in s"
  "inv_slot_in (s\<lparr>c_pc := vcpc\<rparr>) = inv_slot_in s"
  "inv_slot_in (s\<lparr>source := vsource\<rparr>) = inv_slot_in s"
  "inv_slot_in (s\<lparr>counted_in := vcountedin\<rparr>) = inv_slot_in s"
  "inv_slot_in (s\<lparr>counted_out := vcountedout\<rparr>) = inv_slot_in s"
  "inv_slot_in (s\<lparr>sink := vsink\<rparr>) = inv_slot_in s"
  "inv_slot_in (s\<lparr>log := vlog\<rparr>) = inv_slot_in s"
  "encryptor_data_ready \<noteq> x \<Longrightarrow>
     inv_slot_in (s\<lparr>sems := (sems s)(x := k)\<rparr>) = inv_slot_in s"
  by (simp_all add: inv_slot_in_def)

lemma inv_slot_out_frame [simp]:
  "inv_slot_out enc (s\<lparr>n := vn\<rparr>) = inv_slot_out enc s"
  "inv_slot_out enc (s\<lparr>m := vm\<rparr>) = inv_slot_out enc s"
  "inv_slot_out enc (s\<lparr>input_buffer := vinputbuffer\<rparr>) = inv_slot_out enc s"
  "inv_slot_out enc (s\<lparr>input_buffer_in := vinputbufferin\<rparr>) = inv_slot_out enc s"
  "inv_slot_out enc (s\<lparr>input_buffer_out := vinputbufferout\<rparr>) = inv_slot_out enc s"
  "inv_slot_out enc (s\<lparr>input_count := vinputcount\<rparr>) = inv_slot_out enc s"
  "inv_slot_out enc (s\<lparr>output_count := voutputcount\<rparr>) = inv_slot_out enc s"
  "inv_slot_out enc (s\<lparr>reader_lock := vreaderlock\<rparr>) = inv_slot_out enc s"
  "inv_slot_out enc (s\<lparr>r_pc := vrpc\<rparr>) = inv_slot_out enc s"
  "inv_slot_out enc (s\<lparr>r_c := vrc\<rparr>) = inv_slot_out enc s"
  "inv_slot_out enc (s\<lparr>i_pc := vipc\<rparr>) = inv_slot_out enc s"
  "inv_slot_out enc (s\<lparr>i_c := vic\<rparr>) = inv_slot_out enc s"
  "inv_slot_out enc (s\<lparr>o_pc := vopc\<rparr>) = inv_slot_out enc s"
  "inv_slot_out enc (s\<lparr>o_c := voc\<rparr>) = inv_slot_out enc s"
  "inv_slot_out enc (s\<lparr>w_c := vwc\<rparr>) = inv_slot_out enc s"
  "inv_slot_out enc (s\<lparr>c_pc := vcpc\<rparr>) = inv_slot_out enc s"
  "inv_slot_out enc (s\<lparr>source := vsource\<rparr>) = inv_slot_out enc s"
  "inv_slot_out enc (s\<lparr>counted_in := vcountedin\<rparr>) = inv_slot_out enc s"
  "inv_slot_out enc (s\<lparr>counted_out := vcountedout\<rparr>) = inv_slot_out enc s"
  "inv_slot_out enc (s\<lparr>sink := vsink\<rparr>) = inv_slot_out enc s"
  "inv_slot_out enc (s\<lparr>log := vlog\<rparr>) = inv_slot_out enc s"
  "writer_data_ready \<noteq> x \<Longrightarrow>
     inv_slot_out enc (s\<lparr>sems := (sems s)(x := k)\<rparr>) = inv_slot_out enc s"
  by (simp_all add: inv_slot_out_def)

lemma inv_reader_c_frame [simp]:
  "inv_reader_c enc (s\<lparr>n := vn\<rparr>) = inv_reader_c enc s"
  "inv_reader_c enc (s\<lparr>m := vm\<rparr>) = inv_reader_c enc s"
  "inv_reader_c enc (s\<lparr>input_buffer := vinputbuffer\<rparr>) = inv_reader_c enc s"
  "inv_reader_c enc (s\<lparr>output_buffer := voutputbuffer\<rparr>) = inv_reader_c enc s"
  "inv_reader_c enc (s\<lparr>input_buffer_in := vinputbufferin\<rparr>) = inv_reader_c enc s"
  "inv_reader_c enc (s\<lparr>input_buffer_out := vinputbufferout\<rparr>) = inv_reader_c enc s"
  "inv_reader_c enc (s\<lparr>output_buffer_in := voutputbufferin\<rparr>) = inv_reader_c enc s"
  "inv_reader_c enc (s\<lparr>output_buffer_out := voutputbufferout\<rparr>) = inv_reader_c enc s"
  "inv_reader_c enc (s\<lparr>input_count := vinputcount\<rparr>) = inv_reader_c enc s"
  "inv_reader_c enc (s\<lparr>output_count := voutputcount\<rparr>) = inv_reader_c enc s"
  "inv_reader_c enc (s\<lparr>reader_lock := vreaderlock\<rparr>) = inv_reader_c enc s"
  "inv_reader_c enc (s\<lparr>i_pc := vipc\<rparr>) = inv_reader_c enc s"
  "inv_reader_c enc (s\<lparr>i_c := vic\<rparr>) = inv_reader_c enc s"
  "inv_reader_c enc (s\<lparr>e_pc := vepc\<rparr>) = inv_reader_c enc s"
  "inv_reader_c enc (s\<lparr>e_c := vec\<rparr>) = inv_reader_c enc s"
  "inv_reader_c enc (s\<lparr>o_pc := vopc\<rparr>) = inv_reader_c enc s"
  "inv_reader_c enc (s\<lparr>o_c := voc\<rparr>) = inv_reader_c enc s"
  "inv_reader_c enc (s\<lparr>w_pc := vwpc\<rparr>) = inv_reader_c enc s"
  "inv_reader_c enc (s\<lparr>w_c := vwc\<rparr>) = inv_reader_c enc s"
  "inv_reader_c enc (s\<lparr>c_pc := vcpc\<rparr>) = inv_reader_c enc s"
  "inv_reader_c enc (s\<lparr>counted_in := vcountedin\<rparr>) = inv_reader_c enc s"
  "inv_reader_c enc (s\<lparr>counted_out := vcountedout\<rparr>) = inv_reader_c enc s"
  "inv_reader_c enc (s\<lparr>sink := vsink\<rparr>) = inv_reader_c enc s"
  "inv_reader_c enc (s\<lparr>log := vlog\<rparr>) = inv_reader_c enc s"
  "inv_reader_c enc (s\<lparr>sems := f\<rparr>) = inv_reader_c enc s"
  by (simp_all add: inv_reader_c_def)

lemma inv_encryptor_c_frame [simp]:
  "inv_encryptor_c enc (s\<lparr>n := vn\<rparr>) = inv_encryptor_c enc s"
  "inv_encryptor_c enc (s\<lparr>m := vm\<rparr>) = inv_encryptor_c enc s"
  "inv_encryptor_c enc (s\<lparr>input_buffer := vinputbuffer\<rparr>) = inv_encryptor_c enc s"
  "inv_encryptor_c enc (s\<lparr>output_buffer := voutputbuffer\<rparr>) = inv_encryptor_c enc s"
  "inv_encryptor_c enc (s\<lparr>input_buffer_in := vinputbufferin\<rparr>) = inv_encryptor_c enc s"
  "inv_encryptor_c enc (s\<lparr>input_buffer_out := vinputbufferout\<rparr>) = inv_encryptor_c enc s"
  "inv_encryptor_c enc (s\<lparr>output_buffer_in := voutputbufferin\<rparr>) = inv_encryptor_c enc s"
  "inv_encryptor_c enc (s\<lparr>output_buffer_out := voutputbufferout\<rparr>) = inv_encryptor_c enc s"
  "inv_encryptor_c enc (s\<lparr>input_count := vinputcount\<rparr>) = inv_encryptor_c enc s"
  "inv_encryptor_c enc (s\<lparr>output_count := voutputcount\<rparr>) = inv_encryptor_c enc s"
  "inv_encryptor_c enc (s\<lparr>reader_lock := vreaderlock\<rparr>) = inv_encryptor_c enc s"
  "inv_encryptor_c enc (s\<lparr>i_pc := vipc\<rparr>) = inv_encryptor_c enc s"
  "inv_encryptor_c enc (s\<lparr>i_c := vic\<rparr>) = inv_encryptor_c enc s"
  "inv_encryptor_c enc (s\<lparr>o_pc := vopc\<rparr>) = inv_encryptor_c enc s"
  "inv_encryptor_c enc (s\<lparr>o_c := voc\<rparr>) = inv_encryptor_c enc s"
  "inv_encryptor_c enc (s\<lparr>w_pc := vwpc\<rparr>) = inv_encryptor_c enc s"
  "inv_encryptor_c enc (s\<lparr>w_c := vwc\<rparr>) = inv_encryptor_c enc s"
  "inv_encryptor_c enc (s\<lparr>c_pc := vcpc\<rparr>) = inv_encryptor_c enc s"
  "inv_encryptor_c enc (s\<lparr>counted_in := vcountedin\<rparr>) = inv_encryptor_c enc s"
  "inv_encryptor_c enc (s\<lparr>counted_out := vcountedout\<rparr>) = inv_encryptor_c enc s"
  "inv_encryptor_c enc (s\<lparr>sink := vsink\<rparr>) = inv_encryptor_c enc s"
  "inv_encryptor_c enc (s\<lparr>log := vlog\<rparr>) = inv_encryptor_c enc s"
  "encryptor_done \<noteq> x \<Longrightarrow>
     inv_encryptor_c enc (s\<lparr>sems := (sems s)(x := k)\<rparr>) = inv_encryptor_c enc s"
  by (simp_all add: inv_encryptor_c_def)

lemma inv_writer_c_frame [simp]:
  "inv_writer_c (s\<lparr>n := vn\<rparr>) = inv_writer_c s"
  "inv_writer_c (s\<lparr>m := vm\<rparr>) = inv_writer_c s"
  "inv_writer_c (s\<lparr>input_buffer := vinputbuffer\<rparr>) = inv_writer_c s"
  "inv_writer_c (s\<lparr>output_buffer := voutputbuffer\<rparr>) = inv_writer_c s"
  "inv_writer_c (s\<lparr>input_buffer_in := vinputbufferin\<rparr>) = inv_writer_c s"
  "inv_writer_c (s\<lparr>input_buffer_out := vinputbufferout\<rparr>) = inv_writer_c s"
  "inv_writer_c (s\<lparr>output_buffer_in := voutputbufferin\<rparr>) = inv_writer_c s"
  "inv_writer_c (s\<lparr>output_buffer_out := voutputbufferout\<rparr>) = inv_writer_c s"
  "inv_writer_c (s\<lparr>input_count := vinputcount\<rparr>) = inv_writer_c s"
  "inv_writer_c (s\<lparr>output_count := voutputcount\<rparr>) = inv_writer_c s"
  "inv_writer_c (s\<lparr>reader_lock := vreaderlock\<rparr>) = inv_writer_c s"
  "inv_writer_c (s\<lparr>r_pc := vrpc\<rparr>) = inv_writer_c s"
  "inv_writer_c (s\<lparr>r_c := vrc\<rparr>) = inv_writer_c s"
  "inv_writer_c (s\<lparr>i_pc := vipc\<rparr>) = inv_writer_c s"
  "inv_writer_c (s\<lparr>i_c := vic\<rparr>) = inv_writer_c s"
  "inv_writer_c (s\<lparr>e_c := vec\<rparr>) = inv_writer_c s"
  "inv_writer_c (s\<lparr>o_pc := vopc\<rparr>) = inv_writer_c s"
  "inv_writer_c (s\<lparr>o_c := voc\<rparr>) = inv_writer_c s"
  "inv_writer_c (s\<lparr>c_pc := vcpc\<rparr>) = inv_writer_c s"
  "inv_writer_c (s\<lparr>source := vsource\<rparr>) = inv_writer_c s"
  "inv_writer_c (s\<lparr>counted_in := vcountedin\<rparr>) = inv_writer_c s"
  "inv_writer_c (s\<lparr>counted_out := vcountedout\<rparr>) = inv_writer_c s"
  "inv_writer_c (s\<lparr>sink := vsink\<rparr>) = inv_writer_c s"
  "inv_writer_c (s\<lparr>log := vlog\<rparr>) = inv_writer_c s"
  "inv_writer_c (s\<lparr>sems := f\<rparr>) = inv_writer_c s"
  by (simp_all add: inv_writer_c_def)

lemma inv_data_frame [simp]:
  "inv_data enc S (s\<lparr>n := vn\<rparr>) = inv_data enc S s"
  "inv_data enc S (s\<lparr>m := vm\<rparr>) = inv_data enc S s"
  "inv_data enc S (s\<lparr>input_buffer := vinputbuffer\<rparr>) = inv_data enc S s"
  "inv_data enc S (s\<lparr>output_buffer := voutputbuffer\<rparr>) = inv_data enc S s"
  "inv_data enc S (s\<lparr>input_buffer_in := vinputbufferin\<rparr>) = inv_data enc S s"
  "inv_data enc S (s\<lparr>input_buffer_out := vinputbufferout\<rparr>) = inv_data enc S s"
  "inv_data enc S (s\<lparr>output_buffer_in := voutputbufferin\<rparr>) = inv_data enc S s"
  "inv_data enc S (s\<lparr>output_buffer_out := voutputbufferout\<rparr>) = inv_data enc S s"
  "inv_data enc S (s\<lparr>input_count := vinputcount\<rparr>) = inv_data enc S s"
  "inv_data enc S (s\<lparr>output_count := voutputcount\<rparr>) = inv_data enc S s"
  "inv_data enc S (s\<lparr>reader_lock := vreaderlock\<rparr>) = inv_data enc S s"
  "inv_data enc S (s\<lparr>i_pc := vipc\<rparr>) = inv_data enc S s"
  "inv_data enc S (s\<lparr>i_c := vic\<rparr>) = inv_data enc S s"
  "inv_data enc S (s\<lparr>o_pc := vopc\<rparr>) = inv_data enc S s"
  "inv_data enc S (s\<lparr>o_c := voc\<rparr>) = inv_data enc S s"
  "inv_data enc S (s\<lparr>c_pc := vcpc\<rparr>) = inv_data enc S s"
  "inv_data enc S (s\<lparr>counted_in := vcountedin\<rparr>) = inv_data enc S s"
  "inv_data enc S (s\<lparr>counted_out := vcountedout\<rparr>) = inv_data enc S s"
  "inv_data enc S (s\<lparr>log := vlog\<rparr>) = inv_data enc S s"
  "encryptor_data_ready \<noteq> x \<Longrightarrow> writer_data_ready \<noteq> x \<Longrightarrow>
     inv_data enc S (s\<lparr>sems := (sems s)(x := k)\<rparr>) = inv_data enc S s"
  by (simp_all add: inv_data_def)


section \<open>The assertions, one conjunct at a time\<close>







section \<open>The Writer keeps the hand-over\<close>










section \<open>The Reader keeps the hand-over\<close>














section \<open>The Encryptor keeps the hand-over\<close>





















section \<open>The counters and the reset controller\<close>





















end
